theory Spec2Isabelle
  imports Main
begin

section \<open>Wire data\<close>

text \<open>
  Modelled from the spec: \<^verbatim>\<open>parl.remote.remote_constants\<close> is imported by
  \<^verbatim>\<open>job.py\<close> but is not among the sources. The spec (section 6) lists the tags and
  says they are compared by equality; a tag received from a peer can be any other byte
  string, which is \<open>OTHER_TAG\<close>.
\<close>

datatype tag =
    SEND_FILE_TAG | INIT_OBJECT_TAG | CALL_TAG | KILLJOB_TAG | NORMAL_TAG | HEARTBEAT_TAG
  | RESET_JOB_TAG | EXCEPTION_TAG | ATTRIBUTE_EXCEPTION_TAG | SERIALIZE_EXCEPTION_TAG
  | DESERIALIZE_EXCEPTION_TAG | OTHER_TAG string

text \<open>An address is the string \<^verbatim>\<open>"{}:{}".format(ip, port)\<close>, kept as its two parts.\<close>

type_synonym address = "string \<times> nat"

text \<open>
  Modelled from the spec: \<^verbatim>\<open>parl.remote.message.InitializedJob\<close> is not among the
  sources. Its fields are taken from the two constructor calls of \<^verbatim>\<open>job.py\<close> (positional
  in \<^verbatim>\<open>_create_sockets\<close>, by keyword in \<^verbatim>\<open>run\<close>) and from section 3 of the spec;
  Python's \<^verbatim>\<open>None\<close> is \<open>None\<close>.
\<close>

record initialized_job =
  job_address :: address
  worker_heartbeat_address :: "address option"
  client_heartbeat_address :: address
  ping_heartbeat_address :: address
  worker_address :: "string option"
  pid :: "nat option"

text \<open>
  One part of a multipart message is a byte string. The two pickled values whose content
  the job or its peers look into are kept structured: the \<^verbatim>\<open>filename -> bytes\<close>
  dictionary of \<^verbatim>\<open>SEND_FILE\<close> (its items in iteration order) and the announcement.
  A message is its tag \<^verbatim>\<open>message[0]\<close> and the parts after it.
\<close>

datatype frame =
    Raw string
  | PickledFiles "(string \<times> string) list"
  | PickledJob initialized_job

type_synonym message = "tag \<times> frame list"

text \<open>
  An exception instance: its exact class, as \<^verbatim>\<open>type(e) ==\<close> compares it, and
  \<^verbatim>\<open>str(e)\<close>. The classes are those of \<^verbatim>\<open>Exception\<close>, which the two
  \<^verbatim>\<open>except Exception\<close> handlers of \<^verbatim>\<open>job.py\<close> catch.
\<close>

datatype exc_type =
    AttributeError | SerializeError | DeserializeError | NotImplementedError
  | AssertionError | IndexError | UnpicklingError | FileNotFoundError | FileExistsError
  | NotADirectoryError | IsADirectoryError | OtherException string

datatype exn = Exn exc_type string

fun exn_type :: "exn \<Rightarrow> exc_type" where
  "exn_type (Exn t m) = t"

fun exn_str :: "exn \<Rightarrow> string" where
  "exn_str (Exn t m) = m"

section \<open>The file system under the scratch directory\<close>

text \<open>
  Directories and regular files by their absolute paths, each path the list of its
  components below the root. \<open>files\<close> is an association list, the latest write first.
\<close>

record filesys =
  dirs :: "string list list"
  files :: "(string list \<times> string) list"

fun split_sep :: "string \<Rightarrow> string \<Rightarrow> string list" where
  "split_sep acc [] = [acc]"
| "split_sep acc (c # cs) =
     (if c = CHR ''/'' then acc # split_sep [] cs else split_sep (acc @ [c]) cs)"

definition components :: "string \<Rightarrow> string list" where
  "components p = split_sep [] p"

text \<open>\<^verbatim>\<open>os.path.join(a, b)\<close> of \<^verbatim>\<open>posixpath\<close>: an absolute \<open>b\<close> discards \<open>a\<close>.\<close>

definition path_join :: "string \<Rightarrow> string \<Rightarrow> string" where
  "path_join a b =
     (if b \<noteq> [] \<and> hd b = CHR ''/'' then b
      else if a = [] \<or> last a = CHR ''/'' then a @ b
      else a @ ''/'' @ b)"

text \<open>
  Walking the directory part of a path from directory \<open>cur\<close>: every named component
  must be an existing directory.
\<close>

fun resolve :: "filesys \<Rightarrow> string list \<Rightarrow> string list \<Rightarrow> exn + string list" where
  "resolve fs cur [] = Inr cur"
| "resolve fs cur (c # cs) =
     (if c = [] \<or> c = ''.'' then resolve fs cur cs
      else if c = ''..'' then resolve fs (butlast cur) cs
      else if cur @ [c] \<in> set (dirs fs) then resolve fs (cur @ [c]) cs
      else if cur @ [c] \<in> fst ` set (files fs) then Inl (Exn NotADirectoryError c)
      else Inl (Exn FileNotFoundError c))"

text \<open>
  \<^verbatim>\<open>with open(file, 'wb') as code_file: code_file.write(code)\<close> for an absolute path:
  the file is created or truncated in an existing directory; \<^verbatim>\<open>open\<close> creates no
  directory.
\<close>

definition open_wb_write :: "filesys \<Rightarrow> string \<Rightarrow> string \<Rightarrow> exn + filesys" where
  "open_wb_write fs file code =
     (let cs = components file in
      case resolve fs [] (butlast cs) of
        Inl e \<Rightarrow> Inl e
      | Inr d \<Rightarrow>
          (let name = last cs in
           if name = [] \<or> name = ''.'' \<or> name = ''..'' \<or> d @ [name] \<in> set (dirs fs)
           then Inl (Exn IsADirectoryError file)
           else Inr (fs\<lparr>files := (d @ [name], code) # filter (\<lambda>e. fst e \<noteq> d @ [name]) (files fs)\<rparr>)))"

text \<open>
  \<^verbatim>\<open>tempfile.mkdtemp()\<close>: creates the directory \<^verbatim>\<open>/tmp/<name>\<close> and returns its
  path; \<open>name\<close> is the name the library picked.
\<close>

definition mkdtemp :: "string \<Rightarrow> filesys \<Rightarrow> exn + (string \<times> filesys)" where
  "mkdtemp name fs =
     (if [''tmp''] \<notin> set (dirs fs) then Inl (Exn FileNotFoundError ''/tmp'')
      else if [''tmp'', name] \<in> set (dirs fs) \<or> [''tmp'', name] \<in> fst ` set (files fs)
      then Inl (Exn FileExistsError name)
      else Inr (''/tmp/'' @ name, fs\<lparr>dirs := dirs fs @ [[''tmp'', name]]\<rparr>))"

text \<open>
  The loop of \<^verbatim>\<open>wait_for_files\<close> over the bundle:
  \<^verbatim>\<open>for file in pyfiles: code = pyfiles[file]; file = os.path.join(envdir, file); open ... write\<close>.
  The first failing \<^verbatim>\<open>open\<close> raises; what was written before stays.
\<close>

fun write_files :: "filesys \<Rightarrow> string \<Rightarrow> (string \<times> string) list \<Rightarrow> exn option \<times> filesys" where
  "write_files fs envdir [] = (None, fs)"
| "write_files fs envdir ((file, code) # pyfiles) =
     (case open_wb_write fs (path_join envdir file) code of
        Inl e \<Rightarrow> (Some e, fs)
      | Inr fs' \<Rightarrow> write_files fs' envdir pyfiles)"

section \<open>The environment of the job\<close>

text \<open>
  What the job gets from outside its own code: the host, the ports that
  \<^verbatim>\<open>bind_to_random_port\<close> returns (the \<open>k\<close>-th call of the process), the names
  \<^verbatim>\<open>tempfile.mkdtemp\<close> picks, the codec, and the user's class. A user object is a value
  of type \<open>'o\<close>; a method call returns the object as the call left it.
  \<^item> \<open>cloudpickle_loads f\<close>: the exception \<^verbatim>\<open>cloudpickle.loads\<close> raises on a part, if any;
  \<^item> \<open>construct c a\<close>: \<^verbatim>\<open>cls(*args, **kwargs)\<close>, an exception or the object
    (\<^verbatim>\<open>None\<close> when the callable returns it);
  \<^item> \<open>to_str f\<close>: \<^verbatim>\<open>to_str(message[1])\<close>;
  \<^item> \<open>invoke ob name data\<close>: \<^verbatim>\<open>loads_argument(data)\<close>, the method call and
    \<^verbatim>\<open>dumps_return(ret)\<close>: the exception one of them raises, or the encoded return value;
  \<^item> \<open>format_exc e\<close>: \<^verbatim>\<open>str(traceback.format_exc())\<close> in the handler of \<open>e\<close>.
\<close>

record 'o env =
  get_ip_address :: string
  getpid :: nat
  bind_to_random_port :: "nat \<Rightarrow> nat"
  mkdtemp_name :: "nat \<Rightarrow> string"
  cloudpickle_loads :: "frame \<Rightarrow> exn option"
  construct :: "frame \<Rightarrow> frame \<Rightarrow> exn + 'o option"
  to_str :: "frame \<Rightarrow> exn + string"
  invoke :: "'o \<Rightarrow> string \<Rightarrow> frame \<Rightarrow> (exn + string) \<times> 'o"
  format_exc :: "exn \<Rightarrow> string"

section \<open>The state of the job process\<close>

text \<open>
  Where the main thread stands. It blocks in a receive at \<open>InitAck\<close> (worker's
  acknowledgement), \<open>WaitFiles\<close>, \<open>WaitObject\<close>, \<open>ServeRecv\<close> (request endpoint) and
  \<open>MasterAckWait\<close>, and in \<^verbatim>\<open>client_thread.join()\<close> at \<open>JoinClient\<close>. \<open>RunTest\<close> and
  \<open>ServeTest\<close> are the two loop tests, \<open>Reset\<close> is the statement after the
  \<^verbatim>\<open>try\<close> of \<^verbatim>\<open>run\<close>. \<open>Exited\<close>: \<^verbatim>\<open>run\<close> has returned. \<open>Crashed\<close>: an exception
  has left \<^verbatim>\<open>run\<close>. In both the process is over, its daemon threads with it.
\<close>

datatype control =
    InitAck | RunTest | WaitFiles | WaitObject | ServeTest | ServeRecv
  | Reset | JoinClient | MasterAckWait | Exited | Crashed

text \<open>
  Where a responder thread stands: not started, before its first statement, at its loop
  test, blocked in \<^verbatim>\<open>recv_multipart\<close>, or returned.
\<close>

datatype thread = NotStarted | AtStart | AtTest | InRecv | Finished

datatype chan = RequestEP | JobSocket | MasterSocket | PingEP | WorkerHB | ClientHB

text \<open>
  What the process does that others can see, in order: a message received on the request
  endpoint, a message sent on a channel, a line logged.
\<close>

datatype io = Recv message | Send chan message | Logged string

text \<open>
  \<open>lists\<close> is the store of Python list objects and \<open>sys_path\<close>, \<open>previous_path\<close> are
  references into it: \<^verbatim>\<open>previous_path = sys.path\<close> copies the reference, and
  \<^verbatim>\<open>sys.path.append\<close> changes the object. An attribute that a thread creates
  (\<^verbatim>\<open>worker_is_alive\<close>, \<^verbatim>\<open>client_is_alive\<close>) is \<open>None\<close> until its first assignment.
  \<open>bound\<close> are the ports of the open server sockets, \<open>binds\<close> counts the calls of
  \<^verbatim>\<open>bind_to_random_port\<close> and \<open>tmpdirs\<close> those of \<^verbatim>\<open>mkdtemp\<close>.
\<close>

record 'o job =
  job_is_alive :: bool
  worker_is_alive :: "bool option"
  client_is_alive :: "bool option"
  self_worker_address :: string
  self_master_address :: string
  job_ip :: string
  self_job_address :: address
  self_ping_heartbeat_address :: address
  ping_socket :: "nat option"
  worker_socket :: "nat option"
  client_socket :: "nat option"
  ping_thread :: thread
  worker_thread :: thread
  client_thread :: thread
  bound :: "nat list"
  binds :: nat
  lists :: "nat \<Rightarrow> string list"
  sys_path :: nat
  previous_path :: nat
  envdir :: string
  fs :: filesys
  tmpdirs :: nat
  obj :: "'o option"
  pc :: control
  uncaught :: "exn option"
  trace :: "io list"

definition emit :: "io list \<Rightarrow> 'o job \<Rightarrow> 'o job" where
  "emit xs s = s\<lparr>trace := trace s @ xs\<rparr>"

definition crash :: "exn \<Rightarrow> 'o job \<Rightarrow> 'o job" where
  "crash e s = s\<lparr>pc := Crashed, uncaught := Some e\<rparr>"

text \<open>\<^verbatim>\<open>socket.close(0)\<close> of a responder: the port is free again.\<close>

definition close_port :: "nat option \<Rightarrow> nat list \<Rightarrow> nat list" where
  "close_port sock ports = (case sock of None \<Rightarrow> ports | Some p \<Rightarrow> removeAll p ports)"

definition search_path :: "'o job \<Rightarrow> string list" where
  "search_path s = lists s (sys_path s)"

section \<open>Startup\<close>

text \<open>
  \<^verbatim>\<open>_create_heartbeat_server\<close>: the address of the socket bound by the \<open>k\<close>-th
  \<^verbatim>\<open>bind_to_random_port\<close> of the process. (The \<^verbatim>\<open>timeout\<close> argument only decides
  whether a receive on the socket can time out.)
\<close>

definition create_heartbeat_server :: "'o env \<Rightarrow> string \<Rightarrow> nat \<Rightarrow> address" where
  "create_heartbeat_server E ip k = (ip, bind_to_random_port E k)"

text \<open>
  \<^verbatim>\<open>Job.__init__\<close> with \<^verbatim>\<open>_create_sockets\<close>, up to the blocking receive of the
  worker's acknowledgement. \<open>path0\<close> is \<^verbatim>\<open>sys.path\<close> and \<open>fs0\<close> the file system when
  the process starts. The ping and worker responders are started, the client responder
  is created and not started.
\<close>

definition Job_init :: "'o env \<Rightarrow> string \<Rightarrow> string \<Rightarrow> string list \<Rightarrow> filesys \<Rightarrow> 'o job" where
  "Job_init E worker master path0 fs0 =
     (let ip = get_ip_address E;
          job_port = bind_to_random_port E 0;
          job_addr = (ip, job_port);
          ping_addr = create_heartbeat_server E ip 1;
          worker_addr = create_heartbeat_server E ip 2;
          client_addr = create_heartbeat_server E ip 3;
          initialized =
            \<lparr>job_address = job_addr,
             worker_heartbeat_address = Some worker_addr,
             client_heartbeat_address = client_addr,
             ping_heartbeat_address = ping_addr,
             worker_address = None,
             pid = Some (getpid E)\<rparr>
      in \<lparr>job_is_alive = True,
          worker_is_alive = None,
          client_is_alive = None,
          self_worker_address = worker,
          self_master_address = master,
          job_ip = ip,
          self_job_address = job_addr,
          self_ping_heartbeat_address = ping_addr,
          ping_socket = Some (snd ping_addr),
          worker_socket = Some (snd worker_addr),
          client_socket = Some (snd client_addr),
          ping_thread = AtTest,
          worker_thread = AtStart,
          client_thread = NotStarted,
          bound = [snd client_addr, snd worker_addr, snd ping_addr, job_port],
          binds = 4,
          lists = (\<lambda>a. []) (0 := path0),
          sys_path = 0,
          previous_path = 0,
          envdir = [],
          fs = fs0,
          tmpdirs = 0,
          obj = None,
          pc = InitAck,
          uncaught = None,
          trace = [Send JobSocket (NORMAL_TAG, [PickledJob initialized])]\<rparr>)"

section \<open>The heartbeat responders\<close>

text \<open>\<^verbatim>\<open>_reply_ping\<close>: the loop test, then a probe answered.\<close>

definition reply_ping_step :: "'o job \<Rightarrow> 'o job" where
  "reply_ping_step s =
     (if ping_thread s = AtTest then
        (if job_is_alive s then s\<lparr>ping_thread := InRecv\<rparr>
         else s\<lparr>ping_thread := Finished, ping_socket := None,
                bound := close_port (ping_socket s) (bound s)\<rparr>)
      else s)"

definition reply_ping_probe :: "'o job \<Rightarrow> 'o job" where
  "reply_ping_probe s =
     (if ping_thread s = InRecv
      then emit [Send PingEP (HEARTBEAT_TAG, [])] (s\<lparr>ping_thread := AtTest\<rparr>)
      else s)"

text \<open>
  \<^verbatim>\<open>_reply_worker_heartbeat\<close>: the first statement, the loop test, a probe answered,
  and the handler of \<^verbatim>\<open>zmq.error.Again\<close> when the receive times out.
\<close>

definition reply_worker_heartbeat_step :: "'o job \<Rightarrow> 'o job" where
  "reply_worker_heartbeat_step s =
     (if worker_thread s = AtStart
      then s\<lparr>worker_is_alive := Some True, worker_thread := AtTest\<rparr>
      else if worker_thread s = AtTest then
        (if worker_is_alive s = Some True \<and> job_is_alive s then s\<lparr>worker_thread := InRecv\<rparr>
         else s\<lparr>worker_thread := Finished, worker_socket := None,
                bound := close_port (worker_socket s) (bound s)\<rparr>)
      else s)"

definition reply_worker_heartbeat_probe :: "'o job \<Rightarrow> 'o job" where
  "reply_worker_heartbeat_probe s =
     (if worker_thread s = InRecv
      then emit [Send WorkerHB (HEARTBEAT_TAG, [])] (s\<lparr>worker_thread := AtTest\<rparr>)
      else s)"

definition reply_worker_heartbeat_timeout :: "'o job \<Rightarrow> 'o job" where
  "reply_worker_heartbeat_timeout s =
     (if worker_thread s = InRecv
      then (emit [Logged ''[Job] Cannot connect to the worker{}. Job will quit.''] s)
             \<lparr>worker_is_alive := Some False, job_is_alive := False, worker_thread := AtTest\<rparr>
      else s)"

text \<open>\<^verbatim>\<open>_reply_client_heartbeat\<close>, in the same four pieces.\<close>

definition reply_client_heartbeat_step :: "'o job \<Rightarrow> 'o job" where
  "reply_client_heartbeat_step s =
     (if client_thread s = AtStart
      then s\<lparr>client_is_alive := Some True, client_thread := AtTest\<rparr>
      else if client_thread s = AtTest then
        (if client_is_alive s = Some True then s\<lparr>client_thread := InRecv\<rparr>
         else s\<lparr>client_thread := Finished, client_socket := None,
                bound := close_port (client_socket s) (bound s)\<rparr>)
      else s)"

definition reply_client_heartbeat_probe :: "'o job \<Rightarrow> 'o job" where
  "reply_client_heartbeat_probe s =
     (if client_thread s = InRecv
      then emit [Send ClientHB (HEARTBEAT_TAG, [])] (s\<lparr>client_thread := AtTest\<rparr>)
      else s)"

definition reply_client_heartbeat_timeout :: "'o job \<Rightarrow> 'o job" where
  "reply_client_heartbeat_timeout s =
     (if client_thread s = InRecv
      then (emit [Logged ''[Job] Cannot connect to the client. I am going to reset myself''] s)
             \<lparr>client_is_alive := Some False, client_thread := AtTest\<rparr>
      else s)"

section \<open>The session driver\<close>

text \<open>\<^verbatim>\<open>pickle.loads(message[1])\<close> followed by the iteration over the dictionary.\<close>

definition pickle_loads :: "frame \<Rightarrow> exn + (string \<times> string) list" where
  "pickle_loads f =
     (case f of
        PickledFiles pyfiles \<Rightarrow> Inr pyfiles
      | Raw b \<Rightarrow> Inl (Exn UnpicklingError b)
      | PickledJob j \<Rightarrow> Inl (Exn (OtherException ''TypeError'') []))"

definition index_error :: exn where
  "index_error = Exn IndexError ''list index out of range''"

text \<open>
  \<^verbatim>\<open>wait_for_files\<close>, from the message its receive returns: the scratch directory, or
  the exception that leaves the function.
\<close>

definition wait_for_files :: "'o env \<Rightarrow> message \<Rightarrow> 'o job \<Rightarrow> (exn + string) \<times> 'o job" where
  "wait_for_files E message s =
     (let s1 = emit [Recv message] s in
      if fst message = SEND_FILE_TAG then
        (case snd message of
           [] \<Rightarrow> (Inl index_error, s1)
         | f # rest \<Rightarrow>
             (case pickle_loads f of
                Inl e \<Rightarrow> (Inl e, s1)
              | Inr pyfiles \<Rightarrow>
                  (case mkdtemp (mkdtemp_name E (tmpdirs s1)) (fs s1) of
                     Inl e \<Rightarrow> (Inl e, s1\<lparr>tmpdirs := Suc (tmpdirs s1)\<rparr>)
                   | Inr (dir, fs1) \<Rightarrow>
                       (case write_files fs1 dir pyfiles of
                          (Some e, fs2) \<Rightarrow> (Inl e, s1\<lparr>fs := fs2, tmpdirs := Suc (tmpdirs s1)\<rparr>)
                        | (None, fs2) \<Rightarrow>
                            (Inr dir,
                             emit [Send RequestEP (NORMAL_TAG, [])]
                               (s1\<lparr>fs := fs2, tmpdirs := Suc (tmpdirs s1)\<rparr>))))))
      else
        (Inl (Exn NotImplementedError []),
         emit [Logged ''NotImplementedError:{}, received message:{}''] s1))"

definition traceback_sep :: string where
  "traceback_sep = [CHR 0x0A] @ ''traceback:'' @ [CHR 0x0A]"

text \<open>
  \<^verbatim>\<open>wait_for_connection\<close>, from the message its receive returns. The two
  \<^verbatim>\<open>cloudpickle.loads\<close> stand before the \<^verbatim>\<open>try\<close>: what they raise leaves the function
  with no reply sent.
\<close>

definition wait_for_connection :: "'o env \<Rightarrow> message \<Rightarrow> 'o job \<Rightarrow> (exn + 'o option) \<times> 'o job" where
  "wait_for_connection E message s =
     (let s1 = emit [Recv message] s in
      if fst message = INIT_OBJECT_TAG then
        (case snd message of
           [] \<Rightarrow> (Inl index_error, s1)
         | c # rest \<Rightarrow>
             (case cloudpickle_loads E c of
                Some e \<Rightarrow> (Inl e, s1)
              | None \<Rightarrow>
                  (case rest of
                     [] \<Rightarrow> (Inl index_error, s1)
                   | a # rest' \<Rightarrow>
                       (case cloudpickle_loads E a of
                          Some e \<Rightarrow> (Inl e, s1)
                        | None \<Rightarrow>
                            (case construct E c a of
                               Inl e \<Rightarrow>
                                 (Inr None,
                                  (emit [Logged (''traceback:'' @ [CHR 0x0A] @ format_exc E e),
                                         Send RequestEP
                                           (EXCEPTION_TAG,
                                            [Raw (exn_str e @ traceback_sep @ format_exc E e)])] s1)
                                    \<lparr>client_is_alive := Some False\<rparr>)
                             | Inr ob \<Rightarrow>
                                 (Inr ob, emit [Send RequestEP (NORMAL_TAG, [])] s1))))))
      else
        (Inl (Exn NotImplementedError []),
         emit [Logged ''Message from job {}'',
               Send RequestEP
                 (EXCEPTION_TAG,
                  [Raw ''[job]Unkonwn tag when tried to receive the class definition''])] s1))"

text \<open>
  The body of the \<^verbatim>\<open>try\<close> of a \<^verbatim>\<open>CALL\<close> up to \<^verbatim>\<open>dumps_return\<close>: the encoded
  return value, or the exception raised on the way.
\<close>

definition dispatch :: "'o env \<Rightarrow> 'o \<Rightarrow> frame list \<Rightarrow> (exn + string) \<times> 'o" where
  "dispatch E ob parts =
     (case parts of
        [] \<Rightarrow> (Inl index_error, ob)
      | n # rest \<Rightarrow>
          (case to_str E n of
             Inl e \<Rightarrow> (Inl e, ob)
           | Inr function_name \<Rightarrow>
               (case rest of
                  [] \<Rightarrow> (Inl index_error, ob)
                | data # rest' \<Rightarrow> invoke E ob function_name data)))"

text \<open>The \<^verbatim>\<open>except Exception as e\<close> of a \<^verbatim>\<open>CALL\<close>.\<close>

definition call_except :: "'o env \<Rightarrow> exn \<Rightarrow> 'o job \<Rightarrow> 'o job" where
  "call_except E e s =
     (let s1 = s\<lparr>client_is_alive := Some False\<rparr>;
          error_str = exn_str e;
          s2 = emit [Logged error_str] s1
      in if exn_type e = AttributeError
         then emit [Send RequestEP (ATTRIBUTE_EXCEPTION_TAG, [Raw error_str])] s2
         else if exn_type e = SerializeError
         then emit [Send RequestEP (SERIALIZE_EXCEPTION_TAG, [Raw error_str])] s2
         else if exn_type e = DeserializeError
         then emit [Send RequestEP (DESERIALIZE_EXCEPTION_TAG, [Raw error_str])] s2
         else emit [Logged (''traceback:'' @ [CHR 0x0A] @ format_exc E e),
                    Send RequestEP
                      (EXCEPTION_TAG, [Raw (error_str @ traceback_sep @ format_exc E e)])] s2)"

text \<open>
  One turn of the loop of \<^verbatim>\<open>single_task\<close>, from the message its receive returns:
  the exception that leaves \<^verbatim>\<open>single_task\<close>, if any.
\<close>

definition single_task :: "'o env \<Rightarrow> message \<Rightarrow> 'o job \<Rightarrow> exn option \<times> 'o job" where
  "single_task E message s =
     (let s1 = emit [Recv message] s in
      if fst message = CALL_TAG then
        (case obj s1 of
           None \<Rightarrow> (Some (Exn AssertionError []), s1)
         | Some ob \<Rightarrow>
             (case dispatch E ob (snd message) of
                (Inr ret, ob') \<Rightarrow>
                  (None, emit [Send RequestEP (NORMAL_TAG, [Raw ret])] (s1\<lparr>obj := Some ob'\<rparr>))
              | (Inl e, ob') \<Rightarrow> (None, call_except E e (s1\<lparr>obj := Some ob'\<rparr>))))
      else if fst message = KILLJOB_TAG then
        (None,
         emit [Logged ''An actor exits and will reset job {}.'']
           ((emit [Send RequestEP (NORMAL_TAG, [])] s1)\<lparr>client_is_alive := Some False\<rparr>))
      else (Some (Exn NotImplementedError []), emit [Logged ''Job message: {}''] s1))"

text \<open>The \<^verbatim>\<open>except Exception as e\<close> of \<^verbatim>\<open>run\<close>; the statement after it is the reset.\<close>

definition run_except :: "exn \<Rightarrow> 'o job \<Rightarrow> 'o job" where
  "run_except e s =
     (emit [Logged (''Error occurs when running a single task. We will reset this job. Reason:''
                    @ exn_str e)] s)
       \<lparr>pc := Reset\<rparr>"

text \<open>
  \<^verbatim>\<open>run\<close>, when a receive on the request endpoint returns \<open>message\<close>.
  At \<open>WaitFiles\<close>: \<^verbatim>\<open>wait_for_files\<close> is called outside the \<^verbatim>\<open>try\<close>; then
  \<^verbatim>\<open>previous_path = sys.path\<close>, \<^verbatim>\<open>sys.path.append(envdir)\<close> and
  \<^verbatim>\<open>self.client_thread.start()\<close>.
  At \<open>WaitObject\<close>: \<^verbatim>\<open>obj = self.wait_for_connection()\<close> and \<^verbatim>\<open>assert obj is not None\<close>.
  At \<open>ServeRecv\<close>: one turn of \<^verbatim>\<open>single_task\<close>.
\<close>

definition run_recv :: "'o env \<Rightarrow> message \<Rightarrow> 'o job \<Rightarrow> 'o job" where
  "run_recv E message s =
     (if pc s = WaitFiles then
        (case wait_for_files E message s of
           (Inl e, s1) \<Rightarrow> crash e s1
         | (Inr dir, s1) \<Rightarrow>
             (let s2 = s1\<lparr>envdir := dir, previous_path := sys_path s1\<rparr>;
                  s3 = s2\<lparr>lists := (lists s2) (sys_path s2 := lists s2 (sys_path s2) @ [dir])\<rparr>
              in if client_thread s3 = NotStarted
                 then s3\<lparr>client_thread := AtStart, pc := WaitObject\<rparr>
                 else crash (Exn (OtherException ''RuntimeError'')
                               ''threads can only be started once'') s3))
      else if pc s = WaitObject then
        (case wait_for_connection E message s of
           (Inl e, s1) \<Rightarrow> run_except e s1
         | (Inr None, s1) \<Rightarrow> run_except (Exn AssertionError []) (s1\<lparr>obj := None\<rparr>)
         | (Inr (Some ob), s1) \<Rightarrow> s1\<lparr>obj := Some ob, pc := ServeTest\<rparr>)
      else if pc s = ServeRecv then
        (case single_task E message s of
           (Some e, s1) \<Rightarrow> run_except e s1
         | (None, s1) \<Rightarrow> s1\<lparr>pc := ServeTest\<rparr>)
      else s)"

text \<open>
  The announcement of the reset:
  \<^verbatim>\<open>InitializedJob(self.job_address, worker_heartbeat_address=None, ...)\<close>.
\<close>

definition reset_announcement :: "'o job \<Rightarrow> address \<Rightarrow> initialized_job" where
  "reset_announcement s client_addr =
     \<lparr>job_address = self_job_address s,
      worker_heartbeat_address = None,
      client_heartbeat_address = client_addr,
      ping_heartbeat_address = self_ping_heartbeat_address s,
      worker_address = None,
      pid = None\<rparr>"

text \<open>
  \<^verbatim>\<open>run\<close>, one statement that does not wait for a message.
  At \<open>RunTest\<close>: \<^verbatim>\<open>while self.job_is_alive\<close>.
  At \<open>ServeTest\<close>: \<^verbatim>\<open>while self.job_is_alive and self.client_is_alive\<close>; reading the
  attribute before the client responder has created it raises \<^verbatim>\<open>AttributeError\<close>.
  At \<open>Reset\<close>: the warning and \<^verbatim>\<open>sys.path = previous_path\<close>.
  At \<open>JoinClient\<close>: \<^verbatim>\<open>self.client_thread.join()\<close> returns once the responder has; then
  the new heartbeat server, the new thread (not started) and \<^verbatim>\<open>RESET_JOB\<close>.
\<close>

definition run_step :: "'o env \<Rightarrow> 'o job \<Rightarrow> 'o job" where
  "run_step E s =
     (if pc s = RunTest then
        (if job_is_alive s then s\<lparr>pc := WaitFiles\<rparr> else s\<lparr>pc := Exited\<rparr>)
      else if pc s = ServeTest then
        (if \<not> job_is_alive s then s\<lparr>pc := Reset\<rparr>
         else (case client_is_alive s of
                 None \<Rightarrow> run_except (Exn AttributeError
                           ''Job object has no attribute client_is_alive'') s
               | Some alive \<Rightarrow> if alive then s\<lparr>pc := ServeRecv\<rparr> else s\<lparr>pc := Reset\<rparr>))
      else if pc s = Reset then
        (emit [Logged ''Restting the job''] s)\<lparr>sys_path := previous_path s, pc := JoinClient\<rparr>
      else if pc s = JoinClient then
        (if client_thread s = Finished then
           (let client_addr = create_heartbeat_server E (job_ip s) (binds s);
                s1 = s\<lparr>binds := Suc (binds s), bound := snd client_addr # bound s,
                       client_socket := Some (snd client_addr), client_thread := NotStarted\<rparr>
            in (emit [Send MasterSocket
                        (RESET_JOB_TAG, [PickledJob (reset_announcement s1 client_addr)])] s1)
                 \<lparr>pc := MasterAckWait\<rparr>)
         else s)
      else s)"

section \<open>Runs of the process\<close>

text \<open>
  What can happen next: a thread runs its next statement (\<open>MainStep\<close>, \<open>PingStep\<close>,
  \<open>WorkerStep\<close>, \<open>ClientStep\<close>), a blocking receive returns (\<open>Request\<close> on the request
  endpoint, the acknowledgements of the worker and the master, the probes of the three
  responders), or the receive of a responder with a deadline times out.
\<close>

datatype event =
    MainStep | Request message | WorkerAck | MasterAck
  | PingStep | PingProbe
  | WorkerStep | WorkerProbe | WorkerTimeout
  | ClientStep | ClientProbe | ClientTimeout

text \<open>
  One event. An event for a thread that is not at the matching point changes nothing,
  and so does any event once the process is over.
\<close>

definition step :: "'o env \<Rightarrow> event \<Rightarrow> 'o job \<Rightarrow> 'o job" where
  "step E ev s =
     (if pc s = Exited \<or> pc s = Crashed then s
      else case ev of
        MainStep \<Rightarrow> run_step E s
      | Request message \<Rightarrow> run_recv E message s
      | WorkerAck \<Rightarrow> (if pc s = InitAck then s\<lparr>pc := RunTest\<rparr> else s)
      | MasterAck \<Rightarrow> (if pc s = MasterAckWait then s\<lparr>pc := RunTest\<rparr> else s)
      | PingStep \<Rightarrow> reply_ping_step s
      | PingProbe \<Rightarrow> reply_ping_probe s
      | WorkerStep \<Rightarrow> reply_worker_heartbeat_step s
      | WorkerProbe \<Rightarrow> reply_worker_heartbeat_probe s
      | WorkerTimeout \<Rightarrow> reply_worker_heartbeat_timeout s
      | ClientStep \<Rightarrow> reply_client_heartbeat_step s
      | ClientProbe \<Rightarrow> reply_client_heartbeat_probe s
      | ClientTimeout \<Rightarrow> reply_client_heartbeat_timeout s)"

fun exec :: "'o env \<Rightarrow> event list \<Rightarrow> 'o job \<Rightarrow> 'o job" where
  "exec E [] s = s"
| "exec E (ev # evs) s = exec E evs (step E ev s)"

section \<open>What a run shows\<close>

text \<open>The \<^verbatim>\<open>RESET_JOB\<close> messages sent to the master, and how many there are.\<close>

fun is_reset :: "io \<Rightarrow> bool" where
  "is_reset (Send c m) = (c = MasterSocket \<and> fst m = RESET_JOB_TAG)"
| "is_reset (Recv m) = False"
| "is_reset (Logged l) = False"

definition resets :: "io list \<Rightarrow> nat" where
  "resets tr = length (filter is_reset tr)"

text \<open>The traffic of the request endpoint: what it received and what was sent on it.\<close>

fun on_request_ep :: "io \<Rightarrow> bool" where
  "on_request_ep (Recv m) = True"
| "on_request_ep (Send c m) = (c = RequestEP)"
| "on_request_ep (Logged l) = False"

definition request_io :: "io list \<Rightarrow> io list" where
  "request_io tr = filter on_request_ep tr"

fun is_request :: "event \<Rightarrow> bool" where
  "is_request (Request m) = True"
| "is_request ev = False"

text \<open>
  The announcements of a run in order: the one sent to the worker at startup and the
  one of each reset.
\<close>

fun announcement :: "io \<Rightarrow> initialized_job list" where
  "announcement (Send c (t, [PickledJob j])) =
     (if c = JobSocket \<or> (c = MasterSocket \<and> t = RESET_JOB_TAG) then [j] else [])"
| "announcement x = []"

definition announcements :: "io list \<Rightarrow> initialized_job list" where
  "announcements tr = concat (map announcement tr)"

text \<open>
  A monitor of the request/reply pairing of \<^verbatim>\<open>CALL\<close>: after a \<^verbatim>\<open>CALL\<close> was received
  (\<open>Awaiting\<close>) the next traffic of the request endpoint must be one reply (\<open>Replied\<close>),
  and after the reply a receive. Anything else is \<open>Violated\<close>, for good.
\<close>

datatype pairing = Idle | Awaiting | Replied | Violated

definition is_call_reply :: "message \<Rightarrow> bool" where
  "is_call_reply m =
     (fst m = NORMAL_TAG \<or> fst m = EXCEPTION_TAG \<or> fst m = ATTRIBUTE_EXCEPTION_TAG
      \<or> fst m = SERIALIZE_EXCEPTION_TAG \<or> fst m = DESERIALIZE_EXCEPTION_TAG)"

fun pair_step :: "pairing \<Rightarrow> io \<Rightarrow> pairing" where
  "pair_step q (Logged l) = q"
| "pair_step q (Recv m) =
     (if q = Violated \<or> q = Awaiting then Violated
      else if fst m = CALL_TAG then Awaiting else Idle)"
| "pair_step q (Send c m) =
     (if c \<noteq> RequestEP then q
      else if q = Awaiting then (if is_call_reply m then Replied else Violated)
      else if q = Replied then Violated
      else q)"

definition pairing_of :: "io list \<Rightarrow> pairing" where
  "pairing_of tr = foldl pair_step Idle tr"

text \<open>A file name with no path in it.\<close>

definition flat_name :: "string \<Rightarrow> bool" where
  "flat_name k = (CHR ''/'' \<notin> set k \<and> k \<noteq> [] \<and> k \<noteq> ''.'' \<and> k \<noteq> ''..'')"

text \<open>Every directory but the root lies in a directory.\<close>

definition dirs_closed :: "filesys \<Rightarrow> bool" where
  "dirs_closed fsys = list_all (\<lambda>p. p = [] \<or> butlast p \<in> set (dirs fsys)) (dirs fsys)"

section \<open>A concrete job\<close>

text \<open>
  A user class whose objects count their calls: method \<^verbatim>\<open>f\<close> returns, method
  \<^verbatim>\<open>boom\<close> raises \<^verbatim>\<open>ValueError("bad")\<close>, and there is no other attribute.
\<close>

definition demo_env :: "nat env" where
  "demo_env =
     \<lparr>get_ip_address = ''10.0.0.7'',
      getpid = 4242,
      bind_to_random_port = (\<lambda>k. 50000 + k),
      mkdtemp_name = (\<lambda>k. ''tmp'' @ replicate (Suc k) (CHR ''x'')),
      cloudpickle_loads = (\<lambda>f. None),
      construct = (\<lambda>c a. Inr (Some 0)),
      to_str = (\<lambda>f. case f of
                  Raw b \<Rightarrow> Inr b
                | PickledFiles d \<Rightarrow> Inl (Exn (OtherException ''UnicodeDecodeError'') [])
                | PickledJob j \<Rightarrow> Inl (Exn (OtherException ''UnicodeDecodeError'') [])),
      invoke = (\<lambda>ob name data.
                  if name = ''f'' then (Inr ''42'', Suc ob)
                  else if name = ''boom'' then (Inl (Exn (OtherException ''ValueError'') ''bad''), ob)
                  else (Inl (Exn AttributeError ''C object has no attribute''), ob)),
      format_exc = (\<lambda>e. ''Traceback (most recent call last)'')\<rparr>"

text \<open>
  The same environment on a host where the port that a closed socket gave up is the
  next one handed out: the fourth and every later \<^verbatim>\<open>bind_to_random_port\<close> return 50003.
\<close>

definition reuse_env :: "nat env" where
  "reuse_env = demo_env\<lparr>bind_to_random_port := (\<lambda>k. if k < 3 then 50000 + k else 50003)\<rparr>"

definition demo_fs :: filesys where
  "demo_fs = \<lparr>dirs = [[], [''tmp'']], files = []\<rparr>"

definition demo_job :: "nat job" where
  "demo_job = Job_init demo_env ''10.0.0.1:8010'' ''10.0.0.2:8000'' [''/usr/lib/python3''] demo_fs"

definition reuse_job :: "nat job" where
  "reuse_job = Job_init reuse_env ''10.0.0.1:8010'' ''10.0.0.2:8000'' [''/usr/lib/python3''] demo_fs"

definition send_file :: message where
  "send_file = (SEND_FILE_TAG, [PickledFiles [(''u.py'', ''class C: pass'')]])"

definition send_package :: message where
  "send_package = (SEND_FILE_TAG, [PickledFiles [(''pkg/u.py'', ''class C: pass'')]])"

definition init_object :: message where
  "init_object = (INIT_OBJECT_TAG, [Raw ''C'', Raw ''args''])"

text \<open>
  Startup up to the first \<^verbatim>\<open>wait_for_files\<close>, with the worker responder in its
  receive; then a session up to the receive of \<^verbatim>\<open>single_task\<close>, with the client
  responder in its receive.
\<close>

definition startup :: "event list" where
  "startup = [WorkerAck, WorkerStep, WorkerStep, MainStep]"

definition attach :: "event list" where
  "attach = [Request send_file, ClientStep, ClientStep, Request init_object, MainStep]"

text \<open>
  The client ends the session with \<^verbatim>\<open>KILLJOB\<close>; its next probe lets the client
  responder see the flag and return; the job resets, and the master acknowledges.
\<close>

definition kill_and_reset :: "event list" where
  "kill_and_reset =
     [Request (KILLJOB_TAG, []), MainStep, ClientProbe, ClientStep,
      MainStep, MainStep, MasterAck, MainStep]"

text \<open>
  The worker heartbeat times out while the session is being served; the next request is
  still answered, then \<^verbatim>\<open>single_task\<close> returns; the client stops probing, the client
  responder returns, and \<^verbatim>\<open>run\<close> goes through its reset before it tests the flag.
\<close>

definition worker_lost :: "event list" where
  "worker_lost = [WorkerTimeout]"

definition after_worker_lost :: "event list" where
  "after_worker_lost =
     [Request (CALL_TAG, [Raw ''f'', Raw ''41'']), MainStep, ClientTimeout, ClientStep,
      MainStep, MainStep, MasterAck, MainStep]"

section \<open>Invariants of a run\<close>

text \<open>
  The pairing monitor has seen no violation; a \<^verbatim>\<open>CALL\<close> is without its reply only when
  the process is over; and \<^verbatim>\<open>single_task\<close> runs with an object.
\<close>

definition paired_inv :: "'o job \<Rightarrow> bool" where
  "paired_inv s =
     (pairing_of (trace s) \<noteq> Violated
      \<and> (pairing_of (trace s) = Awaiting \<longrightarrow> pc s = Crashed)
      \<and> (pc s = ServeTest \<or> pc s = ServeRecv \<longrightarrow> obj s \<noteq> None))"

text \<open>
  How many \<^verbatim>\<open>RESET_JOB\<close> the main thread can still send before it is back at the
  loop test of \<^verbatim>\<open>run\<close>.
\<close>

definition pending_reset :: "'o job \<Rightarrow> nat" where
  "pending_reset s =
     (if pc s = InitAck \<or> pc s = RunTest \<or> pc s = MasterAckWait \<or> pc s = Exited \<or> pc s = Crashed
      then 0 else 1)"

text \<open>
  The \<open>i\<close>-th \<^verbatim>\<open>RESET_JOB\<close> of a process, and what ties the state to the startup:
  the addresses of the request and ping endpoints are those bound first, and every reset
  has bound one more socket.
\<close>

definition nth_reset :: "'o env \<Rightarrow> nat \<Rightarrow> io" where
  "nth_reset E i =
     Send MasterSocket
       (RESET_JOB_TAG,
        [PickledJob
           \<lparr>job_address = (get_ip_address E, bind_to_random_port E 0),
            worker_heartbeat_address = None,
            client_heartbeat_address = (get_ip_address E, bind_to_random_port E (4 + i)),
            ping_heartbeat_address = (get_ip_address E, bind_to_random_port E 1),
            worker_address = None,
            pid = None\<rparr>])"

definition addr_inv :: "'o env \<Rightarrow> 'o job \<Rightarrow> bool" where
  "addr_inv E s =
     (job_ip s = get_ip_address E
      \<and> self_job_address s = (get_ip_address E, bind_to_random_port E 0)
      \<and> self_ping_heartbeat_address s = (get_ip_address E, bind_to_random_port E 1)
      \<and> binds s = 4 + resets (trace s)
      \<and> filter is_reset (trace s) = map (nth_reset E) [0..<resets (trace s)])"

section \<open>Unfolding the model\<close>

lemmas model_defs =
  Job_init_def step_def run_step_def run_recv_def wait_for_files_def wait_for_connection_def
  single_task_def dispatch_def call_except_def emit_def crash_def reply_ping_step_def
  reply_ping_probe_def reply_worker_heartbeat_step_def reply_worker_heartbeat_probe_def
  reply_worker_heartbeat_timeout_def reply_client_heartbeat_step_def
  reply_client_heartbeat_probe_def reply_client_heartbeat_timeout_def
  create_heartbeat_server_def pickle_loads_def mkdtemp_def open_wb_write_def components_def
  path_join_def close_port_def run_except_def reset_announcement_def search_path_def
  index_error_def traceback_sep_def Let_def

lemmas responder_defs =
  reply_ping_step_def reply_ping_probe_def reply_worker_heartbeat_step_def
  reply_worker_heartbeat_probe_def reply_worker_heartbeat_timeout_def
  reply_client_heartbeat_step_def reply_client_heartbeat_probe_def
  reply_client_heartbeat_timeout_def

lemmas demo_defs =
  demo_env_def reuse_env_def demo_fs_def demo_job_def reuse_job_def send_file_def
  send_package_def init_object_def startup_def attach_def kill_and_reset_def worker_lost_def
  after_worker_lost_def

lemma exec_append: "exec E (xs @ ys) s = exec E ys (exec E xs s)"
  by (induction xs arbitrary: s) simp_all

section \<open>The flag \<open>job_is_alive\<close>\<close>

lemma wait_for_files_alive: "job_is_alive (snd (wait_for_files E m s)) = job_is_alive s"
  by (auto simp: wait_for_files_def emit_def Let_def
      split: prod.splits sum.splits option.splits list.splits)

lemma wait_for_connection_alive:
  "job_is_alive (snd (wait_for_connection E m s)) = job_is_alive s"
  by (auto simp: wait_for_connection_def emit_def Let_def
      split: prod.splits sum.splits option.splits list.splits)

lemma single_task_alive: "job_is_alive (snd (single_task E m s)) = job_is_alive s"
  by (auto simp: single_task_def call_except_def emit_def Let_def
      split: prod.splits sum.splits option.splits list.splits)

lemma run_recv_alive: "job_is_alive (run_recv E m s) = job_is_alive s"
proof -
  obtain r1 s1 where f: "wait_for_files E m s = (r1, s1)"
    by (cases "wait_for_files E m s")
  obtain r2 s2 where c: "wait_for_connection E m s = (r2, s2)"
    by (cases "wait_for_connection E m s")
  obtain r3 s3 where t: "single_task E m s = (r3, s3)"
    by (cases "single_task E m s")
  from f have 1: "job_is_alive s1 = job_is_alive s"
    using wait_for_files_alive [of E m s] by simp
  from c have 2: "job_is_alive s2 = job_is_alive s"
    using wait_for_connection_alive [of E m s] by simp
  from t have 3: "job_is_alive s3 = job_is_alive s"
    using single_task_alive [of E m s] by simp
  show ?thesis
    by (simp add: run_recv_def f c t 1 2 3 crash_def run_except_def emit_def Let_def
        split: sum.splits option.splits)
qed

lemma run_step_alive: "job_is_alive (run_step E s) = job_is_alive s"
  by (simp add: run_step_def run_except_def emit_def Let_def split: option.splits)

lemma step_alive: "job_is_alive (step E ev s) \<Longrightarrow> job_is_alive s"
  by (cases ev)
     (simp_all add: step_def run_recv_alive run_step_alive responder_defs emit_def
        split: if_splits)

lemma exec_alive: "job_is_alive (exec E evs s) \<Longrightarrow> job_is_alive s"
  by (induction evs arbitrary: s) (auto dest: step_alive)

text \<open>
  Claim C9. \<^verbatim>\<open>job_is_alive\<close> never goes back to true: \<^verbatim>\<open>Job.__init__\<close> sets it to
  true; whatever happens next (a statement of the main thread or of a responder, a
  message, a timeout), a flag that is false stays false, so every write after the
  initialization writes false; and so it is along every run.
\<close>

theorem job_is_alive_monotone:
  "job_is_alive (Job_init E worker master path0 fs0)
   \<and> (\<not> job_is_alive s \<longrightarrow> \<not> job_is_alive (step E ev s))
   \<and> (\<not> job_is_alive s \<longrightarrow> \<not> job_is_alive (exec E evs s))"
  using step_alive [of E ev s] exec_alive [of E evs s] by (auto simp: Job_init_def Let_def)

theorem job_is_alive_monotone_witness:
  "job_is_alive demo_job
   \<and> \<not> job_is_alive (exec demo_env (startup @ attach @ worker_lost) demo_job)
   \<and> \<not> job_is_alive (step demo_env WorkerProbe
                          (exec demo_env (startup @ attach @ worker_lost) demo_job))
   \<and> \<not> job_is_alive (exec demo_env after_worker_lost
                          (exec demo_env (startup @ attach @ worker_lost) demo_job))"
proof -
  have lost: "\<not> job_is_alive (exec demo_env (startup @ attach @ worker_lost) demo_job)"
    by (simp add: demo_defs model_defs)
  show ?thesis
    using lost
      job_is_alive_monotone [of demo_env "''10.0.0.1:8010''" "''10.0.0.2:8000''"
        "[''/usr/lib/python3'']" demo_fs
        "exec demo_env (startup @ attach @ worker_lost) demo_job" WorkerProbe after_worker_lost]
    by (simp add: demo_job_def)
qed

section \<open>Once the process is over\<close>

lemma step_over: "pc s = Crashed \<or> pc s = Exited \<Longrightarrow> step E ev s = s"
  by (auto simp: step_def)

lemma exec_over: "pc s = Crashed \<or> pc s = Exited \<Longrightarrow> exec E evs s = s"
  by (induction evs) (simp_all add: step_over)

section \<open>The traffic of the request endpoint\<close>

lemma request_io_append: "request_io (xs @ ys) = request_io xs @ request_io ys"
  by (simp add: request_io_def)

lemma step_request_io:
  "\<not> is_request ev \<Longrightarrow> request_io (trace (step E ev s)) = request_io (trace s)"
  by (cases ev)
     (auto simp: step_def run_step_def run_except_def responder_defs emit_def Let_def
        request_io_def split: option.splits)

lemma exec_request_io:
  "list_all (\<lambda>ev. \<not> is_request ev) evs \<Longrightarrow>
     request_io (trace (exec E evs s)) = request_io (trace s)"
  by (induction evs arbitrary: s) (simp_all add: step_request_io)

section \<open>Exceptions of a call\<close>

text \<open>
  Claim C4. A \<^verbatim>\<open>CALL\<close> received by \<^verbatim>\<open>single_task\<close> whose dispatch raises an exception
  \<open>e\<close> (from \<^verbatim>\<open>to_str\<close>, a missing part, the decoding of the arguments, the method or
  the encoding of the return value): \<^verbatim>\<open>client_is_alive\<close> is set to false, and the only
  traffic of the request endpoint in that turn is the request followed by one reply:
  \<^verbatim>\<open>ATTRIBUTE_EXCEPTION\<close>, \<^verbatim>\<open>SERIALIZE_EXCEPTION\<close> or \<^verbatim>\<open>DESERIALIZE_EXCEPTION\<close> with
  \<^verbatim>\<open>str(e)\<close> when the class of \<open>e\<close> is exactly \<^verbatim>\<open>AttributeError\<close>,
  \<^verbatim>\<open>SerializeError\<close> or \<^verbatim>\<open>DeserializeError\<close>, and \<^verbatim>\<open>EXCEPTION\<close> with \<^verbatim>\<open>str(e)\<close>, the
  line \<^verbatim>\<open>traceback:\<close> and the formatted traceback for any other class. The loop test
  that follows leaves the serve-calls state for the reset.
\<close>

theorem call_exception_classified:
  assumes "pc s = ServeRecv" and "obj s = Some ob" and "fst msg = CALL_TAG"
    and "dispatch E ob (snd msg) = (Inl e, ob')"
  shows "client_is_alive (step E (Request msg) s) = Some False
    \<and> pc (step E (Request msg) s) = ServeTest
    \<and> pc (step E MainStep (step E (Request msg) s)) = Reset
    \<and> (exn_type e = AttributeError \<longrightarrow>
         request_io (trace (step E (Request msg) s)) =
           request_io (trace s) @ [Recv msg, Send RequestEP (ATTRIBUTE_EXCEPTION_TAG, [Raw (exn_str e)])])
    \<and> (exn_type e = SerializeError \<longrightarrow>
         request_io (trace (step E (Request msg) s)) =
           request_io (trace s) @ [Recv msg, Send RequestEP (SERIALIZE_EXCEPTION_TAG, [Raw (exn_str e)])])
    \<and> (exn_type e = DeserializeError \<longrightarrow>
         request_io (trace (step E (Request msg) s)) =
           request_io (trace s) @ [Recv msg, Send RequestEP (DESERIALIZE_EXCEPTION_TAG, [Raw (exn_str e)])])
    \<and> (exn_type e \<noteq> AttributeError \<and> exn_type e \<noteq> SerializeError \<and> exn_type e \<noteq> DeserializeError \<longrightarrow>
         request_io (trace (step E (Request msg) s)) =
           request_io (trace s) @
             [Recv msg,
              Send RequestEP (EXCEPTION_TAG, [Raw (exn_str e @ traceback_sep @ format_exc E e)])])"
  using assms
  by (simp add: step_def run_recv_def run_step_def single_task_def call_except_def emit_def Let_def
      request_io_append) (simp add: request_io_def)

theorem call_exception_classified_witness:
  "pc (exec demo_env (startup @ attach) demo_job) = ServeRecv
   \<and> obj (exec demo_env (startup @ attach) demo_job) = Some 0
   \<and> dispatch demo_env 0 [Raw ''boom'', Raw ''x''] = (Inl (Exn (OtherException ''ValueError'') ''bad''), 0)
   \<and> client_is_alive (step demo_env (Request (CALL_TAG, [Raw ''boom'', Raw ''x'']))
        (exec demo_env (startup @ attach) demo_job)) = Some False
   \<and> request_io (trace (step demo_env (Request (CALL_TAG, [Raw ''boom'', Raw ''x'']))
        (exec demo_env (startup @ attach) demo_job))) =
      request_io (trace (exec demo_env (startup @ attach) demo_job)) @
        [Recv (CALL_TAG, [Raw ''boom'', Raw ''x'']),
         Send RequestEP (EXCEPTION_TAG,
           [Raw (''bad'' @ traceback_sep @ ''Traceback (most recent call last)'')])]"
proof -
  have a: "pc (exec demo_env (startup @ attach) demo_job) = ServeRecv"
    by (simp add: demo_defs model_defs)
  have b: "obj (exec demo_env (startup @ attach) demo_job) = Some 0"
    by (simp add: demo_defs model_defs)
  have c: "dispatch demo_env 0 (snd (CALL_TAG, [Raw ''boom'', Raw ''x''])) =
      (Inl (Exn (OtherException ''ValueError'') ''bad''), 0)"
    by (simp add: demo_env_def dispatch_def)
  have d: "fst (CALL_TAG, [Raw ''boom'', Raw ''x'']) = CALL_TAG" by simp
  show ?thesis
    using a b c call_exception_classified [OF a b d c]
    by (simp add: demo_env_def)
qed

section \<open>An unknown tag while serving\<close>

text \<open>
  Claim C10. A request received by \<^verbatim>\<open>single_task\<close> whose tag is neither \<^verbatim>\<open>CALL\<close> nor
  \<^verbatim>\<open>KILLJOB\<close> takes \<^verbatim>\<open>run\<close> to its reset with nothing sent on the request endpoint:
  the traffic of the request endpoint grows by the receive alone, and stays so whatever
  happens next, until another request is received.
\<close>

theorem unknown_tag_unpaired:
  assumes "pc s = ServeRecv" and "fst msg \<noteq> CALL_TAG" and "fst msg \<noteq> KILLJOB_TAG"
  shows "pc (step E (Request msg) s) = Reset
    \<and> client_is_alive (step E (Request msg) s) = client_is_alive s
    \<and> request_io (trace (step E (Request msg) s)) = request_io (trace s) @ [Recv msg]
    \<and> (list_all (\<lambda>ev. \<not> is_request ev) evs \<longrightarrow>
         request_io (trace (exec E evs (step E (Request msg) s))) =
           request_io (trace s) @ [Recv msg])"
proof -
  have 1: "pc (step E (Request msg) s) = Reset"
    and 2: "client_is_alive (step E (Request msg) s) = client_is_alive s"
    and 3: "request_io (trace (step E (Request msg) s)) = request_io (trace s) @ [Recv msg]"
    using assms
    by (simp_all add: step_def run_recv_def single_task_def run_except_def emit_def Let_def
        request_io_def)
  show ?thesis using 1 2 3 exec_request_io [of evs E "step E (Request msg) s"] by simp
qed

theorem unknown_tag_unpaired_witness:
  "pc (exec demo_env (startup @ attach) demo_job) = ServeRecv
   \<and> pc (step demo_env (Request (OTHER_TAG ''[PING]'', []))
         (exec demo_env (startup @ attach) demo_job)) = Reset
   \<and> request_io (trace (exec demo_env [MainStep, ClientTimeout, ClientStep, MainStep, MasterAck]
        (step demo_env (Request (OTHER_TAG ''[PING]'', []))
           (exec demo_env (startup @ attach) demo_job)))) =
      request_io (trace (exec demo_env (startup @ attach) demo_job)) @
        [Recv (OTHER_TAG ''[PING]'', [])]"
proof -
  have a: "pc (exec demo_env (startup @ attach) demo_job) = ServeRecv"
    by (simp add: demo_defs model_defs)
  show ?thesis
    using a unknown_tag_unpaired [OF a, of "(OTHER_TAG ''[PING]'', [])" demo_env
        "[MainStep, ClientTimeout, ClientStep, MainStep, MasterAck]"]
    by simp
qed

section \<open>The first message of a session\<close>

text \<open>
  Claim C3, as the code has it. When the message that \<^verbatim>\<open>wait_for_files\<close> receives
  carries any tag other than \<^verbatim>\<open>SEND_FILE\<close>, the job logs the message and raises
  \<^verbatim>\<open>NotImplementedError\<close>; \<^verbatim>\<open>run\<close> calls \<^verbatim>\<open>wait_for_files\<close> outside its
  \<^verbatim>\<open>try\<close>, so the exception leaves \<^verbatim>\<open>run\<close>: nothing is sent, there is no reset, and
  no later event changes anything.
\<close>

theorem first_message_not_send_file:
  assumes "pc s = WaitFiles" and "fst msg \<noteq> SEND_FILE_TAG"
  shows "pc (step E (Request msg) s) = Crashed
    \<and> uncaught (step E (Request msg) s) = Some (Exn NotImplementedError [])
    \<and> trace (step E (Request msg) s) =
        trace s @ [Recv msg, Logged ''NotImplementedError:{}, received message:{}'']
    \<and> exec E evs (step E (Request msg) s) = step E (Request msg) s"
proof -
  have 1: "pc (step E (Request msg) s) = Crashed"
    and 2: "uncaught (step E (Request msg) s) = Some (Exn NotImplementedError [])"
    and 3: "trace (step E (Request msg) s) =
        trace s @ [Recv msg, Logged ''NotImplementedError:{}, received message:{}'']"
    using assms
    by (simp_all add: step_def run_recv_def wait_for_files_def crash_def emit_def Let_def)
  show ?thesis using 1 2 3 exec_over [of "step E (Request msg) s" E evs] by simp
qed

theorem first_message_not_send_file_witness:
  "pc (exec demo_env startup demo_job) = WaitFiles
   \<and> pc (step demo_env (Request init_object) (exec demo_env startup demo_job)) = Crashed
   \<and> uncaught (step demo_env (Request init_object) (exec demo_env startup demo_job)) =
       Some (Exn NotImplementedError [])
   \<and> exec demo_env [MainStep, MasterAck, Request send_file]
        (step demo_env (Request init_object) (exec demo_env startup demo_job)) =
       step demo_env (Request init_object) (exec demo_env startup demo_job)"
proof -
  have a: "pc (exec demo_env startup demo_job) = WaitFiles"
    by (simp add: demo_defs model_defs)
  have b: "fst init_object \<noteq> SEND_FILE_TAG" by (simp add: init_object_def)
  show ?thesis
    using a first_message_not_send_file [OF a b, of demo_env "[MainStep, MasterAck, Request send_file]"]
    by simp
qed

text \<open>
  The claim as stated fails: the client sends \<^verbatim>\<open>INIT_OBJECT\<close> where \<^verbatim>\<open>SEND_FILE\<close> is
  expected. The process is over, and whatever follows, no \<^verbatim>\<open>RESET_JOB\<close> is sent.
\<close>

theorem first_message_not_send_file_counterexample:
  "pc (exec demo_env startup demo_job) = WaitFiles
   \<and> pc (exec demo_env (startup @ [Request init_object]) demo_job) = Crashed
   \<and> pc (exec demo_env (startup @ [Request init_object, MainStep, ClientTimeout, ClientStep,
           MainStep, MasterAck, MainStep, Request send_file]) demo_job) = Crashed
   \<and> resets (trace (exec demo_env (startup @ [Request init_object, MainStep, ClientTimeout,
           ClientStep, MainStep, MasterAck, MainStep, Request send_file]) demo_job)) = 0"
  by (simp add: demo_defs model_defs resets_def)

section \<open>The module search path\<close>

text \<open>
  Claim C7, as the code has it. When \<^verbatim>\<open>wait_for_files\<close> accepts a \<^verbatim>\<open>SEND_FILE\<close>
  message and returns the scratch directory, \<^verbatim>\<open>run\<close> appends that directory to the
  module search path: it stands after all the entries that were there.
\<close>

theorem scratch_dir_appended:
  assumes "pc s = WaitFiles" and "wait_for_files E msg s = (Inr dir, s1)"
  shows "search_path (step E (Request msg) s) = search_path s @ [dir]
    \<and> dir = ''/tmp/'' @ mkdtemp_name E (tmpdirs s)
    \<and> fst msg = SEND_FILE_TAG"
proof -
  have a: "lists s1 = lists s" "sys_path s1 = sys_path s"
    and b: "dir = ''/tmp/'' @ mkdtemp_name E (tmpdirs s)" and c: "fst msg = SEND_FILE_TAG"
    using assms(2)
    by (auto simp: wait_for_files_def emit_def Let_def mkdtemp_def
        split: if_splits list.splits sum.splits prod.splits option.splits)
  show ?thesis using assms a b c
    by (simp add: step_def run_recv_def search_path_def crash_def Let_def)
qed

theorem scratch_dir_appended_witness:
  "pc (exec demo_env startup demo_job) = WaitFiles
   \<and> fst (wait_for_files demo_env send_file (exec demo_env startup demo_job)) = Inr ''/tmp/tmpx''
   \<and> search_path (step demo_env (Request send_file) (exec demo_env startup demo_job)) =
       search_path (exec demo_env startup demo_job) @ [''/tmp/tmpx'']"
proof -
  have a: "pc (exec demo_env startup demo_job) = WaitFiles"
    by (simp add: demo_defs model_defs)
  have b: "fst (wait_for_files demo_env send_file (exec demo_env startup demo_job)) = Inr ''/tmp/tmpx''"
    by (simp add: demo_defs model_defs)
  obtain s1 where c: "wait_for_files demo_env send_file (exec demo_env startup demo_job) =
      (Inr ''/tmp/tmpx'', s1)"
    using b by (cases "wait_for_files demo_env send_file (exec demo_env startup demo_job)") simp
  show ?thesis
    using a b scratch_dir_appended [OF a c] by simp
qed

text \<open>
  The claim as stated fails: the scratch directory is not placed before the entries
  that were on the path.
\<close>

theorem scratch_dir_prepended_counterexample:
  "pc (exec demo_env startup demo_job) = WaitFiles
   \<and> search_path (exec demo_env startup demo_job) = [''/usr/lib/python3'']
   \<and> pc (exec demo_env (startup @ [Request send_file]) demo_job) = WaitObject
   \<and> envdir (exec demo_env (startup @ [Request send_file]) demo_job) = ''/tmp/tmpx''
   \<and> search_path (exec demo_env (startup @ [Request send_file]) demo_job) =
       [''/usr/lib/python3'', ''/tmp/tmpx'']
   \<and> search_path (exec demo_env (startup @ [Request send_file]) demo_job) \<noteq>
       ''/tmp/tmpx'' # search_path (exec demo_env startup demo_job)"
  by (simp add: demo_defs model_defs)

text \<open>
  Claim C2, evaluated on a whole session ended by \<^verbatim>\<open>KILLJOB\<close>: after the reset, with
  \<^verbatim>\<open>RESET_JOB\<close> sent and \<^verbatim>\<open>run\<close> back in \<^verbatim>\<open>wait_for_files\<close>, the scratch directory
  of the session is still on the search path. \<^verbatim>\<open>previous_path\<close> is the list object that
  \<^verbatim>\<open>append\<close> changed, so \<^verbatim>\<open>sys.path = previous_path\<close> restores nothing.
\<close>

theorem reset_keeps_scratch_dir:
  "search_path (exec demo_env startup demo_job) = [''/usr/lib/python3'']
   \<and> pc (exec demo_env (startup @ attach @ kill_and_reset) demo_job) = WaitFiles
   \<and> resets (trace (exec demo_env (startup @ attach @ kill_and_reset) demo_job)) = 1
   \<and> search_path (exec demo_env (startup @ attach @ kill_and_reset) demo_job) =
       [''/usr/lib/python3'', ''/tmp/tmpx'']"
  by (simp add: demo_defs model_defs resets_def)

section \<open>Request and reply\<close>

lemma pairing_of_append: "pairing_of (xs @ ys) = foldl pair_step (pairing_of xs) ys"
  by (simp add: pairing_of_def)

lemma paired_inv_run_step: "paired_inv s \<Longrightarrow> paired_inv (run_step E s)"
  by (cases "pairing_of (trace s)")
     (auto simp: paired_inv_def run_step_def run_except_def emit_def Let_def pairing_of_append
        split: option.splits)

lemma paired_inv_responders:
  "paired_inv s \<Longrightarrow> paired_inv (reply_ping_step s)"
  "paired_inv s \<Longrightarrow> paired_inv (reply_ping_probe s)"
  "paired_inv s \<Longrightarrow> paired_inv (reply_worker_heartbeat_step s)"
  "paired_inv s \<Longrightarrow> paired_inv (reply_worker_heartbeat_probe s)"
  "paired_inv s \<Longrightarrow> paired_inv (reply_worker_heartbeat_timeout s)"
  "paired_inv s \<Longrightarrow> paired_inv (reply_client_heartbeat_step s)"
  "paired_inv s \<Longrightarrow> paired_inv (reply_client_heartbeat_probe s)"
  "paired_inv s \<Longrightarrow> paired_inv (reply_client_heartbeat_timeout s)"
  by (cases "pairing_of (trace s)";
      auto simp: paired_inv_def responder_defs emit_def pairing_of_append)+

lemma paired_inv_files:
  "paired_inv s \<Longrightarrow> pc s = WaitFiles \<Longrightarrow> paired_inv (run_recv E m s)"
  by (cases "pairing_of (trace s)")
     (auto simp: paired_inv_def run_recv_def wait_for_files_def crash_def emit_def Let_def
        pairing_of_append is_call_reply_def
        split: list.splits sum.splits prod.splits option.splits)

lemma paired_inv_object:
  "paired_inv s \<Longrightarrow> pc s = WaitObject \<Longrightarrow> paired_inv (run_recv E m s)"
  by (cases "pairing_of (trace s)")
     (auto simp: paired_inv_def run_recv_def wait_for_connection_def run_except_def emit_def
        Let_def pairing_of_append is_call_reply_def
        split: list.splits sum.splits prod.splits option.splits)

lemma paired_inv_serve:
  "paired_inv s \<Longrightarrow> pc s = ServeRecv \<Longrightarrow> paired_inv (run_recv E m s)"
  by (cases "pairing_of (trace s)")
     (auto simp: paired_inv_def run_recv_def single_task_def call_except_def run_except_def
        emit_def Let_def pairing_of_append is_call_reply_def
        split: list.splits sum.splits prod.splits option.splits)

lemma paired_inv_run_recv: "paired_inv s \<Longrightarrow> paired_inv (run_recv E m s)"
  using paired_inv_files [of s E m] paired_inv_object [of s E m] paired_inv_serve [of s E m]
  by (cases "pc s = WaitFiles \<or> pc s = WaitObject \<or> pc s = ServeRecv")
     (auto simp: run_recv_def)

lemma paired_inv_step: "paired_inv s \<Longrightarrow> paired_inv (step E ev s)"
  by (cases ev)
     (simp_all add: step_def paired_inv_run_step paired_inv_run_recv paired_inv_responders,
      auto simp: paired_inv_def)

lemma paired_inv_exec: "paired_inv s \<Longrightarrow> paired_inv (exec E evs s)"
  by (induction evs arbitrary: s) (simp_all add: paired_inv_step)

lemma paired_inv_init: "paired_inv (Job_init E worker master path0 fs0)"
  by (simp add: paired_inv_def Job_init_def Let_def pairing_of_def)

lemma call_served:
  assumes "pc s = ServeRecv" and "obj s = Some ob" and "fst msg = CALL_TAG"
  shows "\<exists>reply. is_call_reply reply
      \<and> request_io (trace (step E (Request msg) s)) =
          request_io (trace s) @ [Recv msg, Send RequestEP reply]
      \<and> (\<forall>ret ob'. dispatch E ob (snd msg) = (Inr ret, ob') \<longrightarrow> reply = (NORMAL_TAG, [Raw ret]))"
  using assms
  by (cases "dispatch E ob (snd msg)")
     (auto simp: step_def run_recv_def single_task_def call_except_def emit_def Let_def
        request_io_def is_call_reply_def split: sum.splits)

lemma call_well_formed:
  assumes "pc s = ServeRecv" and "obj s = Some ob" and "msg = (CALL_TAG, n # data # rest)"
    and "to_str E n = Inr function_name" and "invoke E ob function_name data = (Inr ret, ob')"
  shows "request_io (trace (step E (Request msg) s)) =
      request_io (trace s) @ [Recv msg, Send RequestEP (NORMAL_TAG, [Raw ret])]
    \<and> obj (step E (Request msg) s) = Some ob'"
  using assms
  by (simp add: step_def run_recv_def single_task_def dispatch_def emit_def Let_def
      request_io_def)

lemma call_without_parts:
  assumes "pc s = ServeRecv" and "obj s = Some ob" and "msg = (CALL_TAG, [])"
  shows "request_io (trace (step E (Request msg) s)) =
      request_io (trace s) @
        [Recv msg,
         Send RequestEP
           (EXCEPTION_TAG,
            [Raw (''list index out of range'' @ traceback_sep
                  @ format_exc E (Exn IndexError ''list index out of range''))])]"
  using assms
  by (simp add: step_def run_recv_def single_task_def dispatch_def call_except_def
      index_error_def emit_def Let_def request_io_def)

lemma call_for_wait_for_connection:
  assumes "pc s = WaitObject" and "fst msg = CALL_TAG"
  shows "request_io (trace (step E (Request msg) s)) =
      request_io (trace s) @
        [Recv msg,
         Send RequestEP
           (EXCEPTION_TAG,
            [Raw ''[job]Unkonwn tag when tried to receive the class definition''])]
    \<and> pc (step E (Request msg) s) = Reset"
  using assms
  by (simp add: step_def run_recv_def wait_for_connection_def run_except_def emit_def Let_def
      request_io_def)

lemma call_for_wait_for_files:
  assumes "pc s = WaitFiles" and "fst msg = CALL_TAG"
  shows "pc (step E (Request msg) s) = Crashed
    \<and> request_io (trace (exec E evs' (step E (Request msg) s))) =
        request_io (trace s) @ [Recv msg]"
proof -
  have 1: "pc (step E (Request msg) s) = Crashed"
    and 2: "request_io (trace (step E (Request msg) s)) = request_io (trace s) @ [Recv msg]"
    using assms
    by (simp_all add: step_def run_recv_def wait_for_files_def crash_def emit_def Let_def
        request_io_def)
  show ?thesis using 1 2 exec_over [of "step E (Request msg) s" E evs'] by simp
qed

text \<open>
  Claim C5, as the code has it. Along every run of the job the traffic of the request
  endpoint never breaks the pairing of \<^verbatim>\<open>CALL\<close> and reply: after a \<^verbatim>\<open>CALL\<close> was
  received, the next thing on the request endpoint is one reply, and after the reply a
  receive. What the reply is depends on where the \<^verbatim>\<open>CALL\<close> is received.
  \<^item> In \<^verbatim>\<open>single_task\<close> exactly one reply is sent in the same turn, before the next
    receive: \<^verbatim>\<open>NORMAL\<close> with the encoded return value of the method named by part 1 on
    the arguments of part 2 when the call returns, and an exception tag otherwise
    (\<^verbatim>\<open>EXCEPTION\<close> with the \<^verbatim>\<open>IndexError\<close> when the parts are missing).
  \<^item> In \<^verbatim>\<open>wait_for_connection\<close> the one reply is \<^verbatim>\<open>EXCEPTION\<close> with the unknown-tag
    text.
  \<^item> In \<^verbatim>\<open>wait_for_files\<close> there is no reply: the job raises, the process is over,
    and nothing more is received or sent on the request endpoint. This is the only way
    a \<^verbatim>\<open>CALL\<close> stays without its reply.
\<close>

theorem call_reply_pairing:
  "pairing_of (trace (exec E evs (Job_init E worker master path0 fs0))) \<noteq> Violated
   \<and> (pairing_of (trace (exec E evs (Job_init E worker master path0 fs0))) = Awaiting \<longrightarrow>
        pc (exec E evs (Job_init E worker master path0 fs0)) = Crashed)
   \<and> (pc (exec E evs (Job_init E worker master path0 fs0)) = ServeRecv \<and> fst msg = CALL_TAG \<longrightarrow>
        (\<exists>reply. is_call_reply reply
           \<and> request_io (trace (step E (Request msg) (exec E evs (Job_init E worker master path0 fs0)))) =
               request_io (trace (exec E evs (Job_init E worker master path0 fs0))) @
                 [Recv msg, Send RequestEP reply]
           \<and> (\<forall>ob ret ob'. obj (exec E evs (Job_init E worker master path0 fs0)) = Some ob
                  \<and> dispatch E ob (snd msg) = (Inr ret, ob') \<longrightarrow> reply = (NORMAL_TAG, [Raw ret]))))
   \<and> (pc (exec E evs (Job_init E worker master path0 fs0)) = ServeRecv \<and> obj (exec E evs (Job_init E worker master path0 fs0)) = Some ob
        \<and> msg = (CALL_TAG, n # data # rest) \<and> to_str E n = Inr function_name
        \<and> invoke E ob function_name data = (Inr ret, ob') \<longrightarrow>
        request_io (trace (step E (Request msg) (exec E evs (Job_init E worker master path0 fs0)))) =
          request_io (trace (exec E evs (Job_init E worker master path0 fs0))) @
            [Recv msg, Send RequestEP (NORMAL_TAG, [Raw ret])]
        \<and> obj (step E (Request msg) (exec E evs (Job_init E worker master path0 fs0))) = Some ob')
   \<and> (pc (exec E evs (Job_init E worker master path0 fs0)) = ServeRecv \<and> msg = (CALL_TAG, []) \<longrightarrow>
        request_io (trace (step E (Request msg) (exec E evs (Job_init E worker master path0 fs0)))) =
          request_io (trace (exec E evs (Job_init E worker master path0 fs0))) @
            [Recv msg,
             Send RequestEP
               (EXCEPTION_TAG,
                [Raw (''list index out of range'' @ traceback_sep
                      @ format_exc E (Exn IndexError ''list index out of range''))])])
   \<and> (pc (exec E evs (Job_init E worker master path0 fs0)) = WaitObject \<and> fst msg = CALL_TAG \<longrightarrow>
        request_io (trace (step E (Request msg) (exec E evs (Job_init E worker master path0 fs0)))) =
          request_io (trace (exec E evs (Job_init E worker master path0 fs0))) @
            [Recv msg,
             Send RequestEP
               (EXCEPTION_TAG,
                [Raw ''[job]Unkonwn tag when tried to receive the class definition''])])
   \<and> (pc (exec E evs (Job_init E worker master path0 fs0)) = WaitFiles \<and> fst msg = CALL_TAG \<longrightarrow>
        pc (step E (Request msg) (exec E evs (Job_init E worker master path0 fs0))) = Crashed
        \<and> request_io (trace (exec E evs' (step E (Request msg) (exec E evs (Job_init E worker master path0 fs0))))) =
            request_io (trace (exec E evs (Job_init E worker master path0 fs0))) @ [Recv msg])"
proof -
  let ?s = "exec E evs (Job_init E worker master path0 fs0)"
  have inv: "paired_inv ?s"
    by (rule paired_inv_exec) (rule paired_inv_init)
  have served: "\<exists>reply. is_call_reply reply
           \<and> request_io (trace (step E (Request msg) ?s)) =
               request_io (trace ?s) @ [Recv msg, Send RequestEP reply]
           \<and> (\<forall>ob ret ob'. obj ?s = Some ob
                  \<and> dispatch E ob (snd msg) = (Inr ret, ob') \<longrightarrow> reply = (NORMAL_TAG, [Raw ret]))"
    if a: "pc ?s = ServeRecv" and b: "fst msg = CALL_TAG"
  proof -
    from inv a obtain ob where ob: "obj ?s = Some ob"
      by (auto simp: paired_inv_def)
    from call_served [OF a ob b, of E] show ?thesis
      using ob by auto
  qed
  have well: "request_io (trace (step E (Request msg) ?s)) =
          request_io (trace ?s) @ [Recv msg, Send RequestEP (NORMAL_TAG, [Raw ret])]
        \<and> obj (step E (Request msg) ?s) = Some ob'"
    if "pc ?s = ServeRecv" "obj ?s = Some ob" "msg = (CALL_TAG, n # data # rest)"
      "to_str E n = Inr function_name" "invoke E ob function_name data = (Inr ret, ob')"
    using that by (rule call_well_formed)
  have none: "request_io (trace (step E (Request msg) ?s)) =
          request_io (trace ?s) @
            [Recv msg,
             Send RequestEP
               (EXCEPTION_TAG,
                [Raw (''list index out of range'' @ traceback_sep
                      @ format_exc E (Exn IndexError ''list index out of range''))])]"
    if a: "pc ?s = ServeRecv" and b: "msg = (CALL_TAG, [])"
  proof -
    from inv a obtain ob where ob: "obj ?s = Some ob"
      by (auto simp: paired_inv_def)
    show ?thesis by (rule call_without_parts [OF a ob b])
  qed
  have conn: "request_io (trace (step E (Request msg) ?s)) =
          request_io (trace ?s) @
            [Recv msg,
             Send RequestEP
               (EXCEPTION_TAG,
                [Raw ''[job]Unkonwn tag when tried to receive the class definition''])]"
    if "pc ?s = WaitObject" "fst msg = CALL_TAG"
    using call_for_wait_for_connection [OF that, of E] by simp
  have files: "pc (step E (Request msg) ?s) = Crashed
        \<and> request_io (trace (exec E evs' (step E (Request msg) ?s))) =
            request_io (trace ?s) @ [Recv msg]"
    if "pc ?s = WaitFiles" "fst msg = CALL_TAG"
    using that by (rule call_for_wait_for_files)
  from inv have p1: "pairing_of (trace ?s) \<noteq> Violated"
    and p2: "pairing_of (trace ?s) = Awaiting \<longrightarrow> pc ?s = Crashed"
    by (simp_all add: paired_inv_def)
  from p1 p2 served well none conn files show ?thesis by blast
qed

theorem call_reply_pairing_witness:
  "pairing_of (trace (exec demo_env (startup @ attach) demo_job)) \<noteq> Violated
   \<and> pc (exec demo_env (startup @ attach) demo_job) = ServeRecv
   \<and> obj (exec demo_env (startup @ attach) demo_job) = Some 0
   \<and> to_str demo_env (Raw ''f'') = Inr ''f''
   \<and> invoke demo_env 0 ''f'' (Raw ''41'') = (Inr ''42'', 1)
   \<and> request_io (trace (step demo_env (Request (CALL_TAG, [Raw ''f'', Raw ''41'']))
        (exec demo_env (startup @ attach) demo_job))) =
       request_io (trace (exec demo_env (startup @ attach) demo_job)) @
         [Recv (CALL_TAG, [Raw ''f'', Raw ''41'']), Send RequestEP (NORMAL_TAG, [Raw ''42''])]
   \<and> obj (step demo_env (Request (CALL_TAG, [Raw ''f'', Raw ''41'']))
        (exec demo_env (startup @ attach) demo_job)) = Some 1"
proof -
  have a: "pc (exec demo_env (startup @ attach) demo_job) = ServeRecv"
    and b: "obj (exec demo_env (startup @ attach) demo_job) = Some 0"
    by (simp_all add: demo_defs model_defs)
  have c: "to_str demo_env (Raw ''f'') = Inr ''f''"
    and d: "invoke demo_env 0 ''f'' (Raw ''41'') = (Inr ''42'', 1)"
    by (simp_all add: demo_env_def)
  show ?thesis
    using a b c d
      call_reply_pairing [of demo_env "startup @ attach" "''10.0.0.1:8010''" "''10.0.0.2:8000''"
        "[''/usr/lib/python3'']" demo_fs "(CALL_TAG, [Raw ''f'', Raw ''41''])" 0 "Raw ''f''"
        "Raw ''41''" "[]" "''f''" "''42''" 1]
    unfolding demo_job_def [symmetric] by simp
qed

text \<open>
  The claim as stated fails: a \<^verbatim>\<open>CALL\<close> is the first message of a session. It is
  received on the request endpoint and no reply is ever sent.
\<close>

theorem call_before_send_file_counterexample:
  "pc (exec demo_env startup demo_job) = WaitFiles
   \<and> pc (exec demo_env (startup @ [Request (CALL_TAG, [Raw ''f'', Raw ''41''])]) demo_job) = Crashed
   \<and> request_io (trace (exec demo_env (startup @ [Request (CALL_TAG, [Raw ''f'', Raw ''41''])])
        demo_job)) = [Recv (CALL_TAG, [Raw ''f'', Raw ''41''])]
   \<and> request_io (trace (exec demo_env
        (startup @ [Request (CALL_TAG, [Raw ''f'', Raw ''41'']), MainStep, Request send_file,
                    ClientStep, Request init_object, MainStep])
        demo_job)) = [Recv (CALL_TAG, [Raw ''f'', Raw ''41''])]"
  by (simp add: demo_defs model_defs request_io_def)

section \<open>The announcements of the resets\<close>

text \<open>What a receive on the request endpoint leaves alone.\<close>

lemma run_recv_files_frame:
  "pc s = WaitFiles \<Longrightarrow>
     job_ip (run_recv E m s) = job_ip s
     \<and> self_job_address (run_recv E m s) = self_job_address s
     \<and> self_ping_heartbeat_address (run_recv E m s) = self_ping_heartbeat_address s
     \<and> binds (run_recv E m s) = binds s
     \<and> filter is_reset (trace (run_recv E m s)) = filter is_reset (trace s)
     \<and> (pc (run_recv E m s) = WaitObject \<or> pc (run_recv E m s) = Crashed)"
  by (auto simp: run_recv_def wait_for_files_def crash_def emit_def Let_def
      split: list.splits sum.splits prod.splits option.splits)

lemma run_recv_object_frame:
  "pc s = WaitObject \<Longrightarrow>
     job_ip (run_recv E m s) = job_ip s
     \<and> self_job_address (run_recv E m s) = self_job_address s
     \<and> self_ping_heartbeat_address (run_recv E m s) = self_ping_heartbeat_address s
     \<and> binds (run_recv E m s) = binds s
     \<and> filter is_reset (trace (run_recv E m s)) = filter is_reset (trace s)
     \<and> (pc (run_recv E m s) = ServeTest \<or> pc (run_recv E m s) = Reset)"
  by (auto simp: run_recv_def wait_for_connection_def run_except_def emit_def Let_def
      split: list.splits sum.splits prod.splits option.splits)

lemma run_recv_serve_frame:
  "pc s = ServeRecv \<Longrightarrow>
     job_ip (run_recv E m s) = job_ip s
     \<and> self_job_address (run_recv E m s) = self_job_address s
     \<and> self_ping_heartbeat_address (run_recv E m s) = self_ping_heartbeat_address s
     \<and> binds (run_recv E m s) = binds s
     \<and> filter is_reset (trace (run_recv E m s)) = filter is_reset (trace s)
     \<and> (pc (run_recv E m s) = ServeTest \<or> pc (run_recv E m s) = Reset)"
  by (auto simp: run_recv_def single_task_def call_except_def run_except_def emit_def Let_def
      split: list.splits sum.splits prod.splits option.splits)

lemma run_recv_frame:
  "job_ip (run_recv E m s) = job_ip s
   \<and> self_job_address (run_recv E m s) = self_job_address s
   \<and> self_ping_heartbeat_address (run_recv E m s) = self_ping_heartbeat_address s
   \<and> binds (run_recv E m s) = binds s
   \<and> filter is_reset (trace (run_recv E m s)) = filter is_reset (trace s)
   \<and> pending_reset (run_recv E m s) \<le> pending_reset s"
  using run_recv_files_frame [of s E m] run_recv_object_frame [of s E m]
    run_recv_serve_frame [of s E m]
  by (cases "pc s = WaitFiles \<or> pc s = WaitObject \<or> pc s = ServeRecv")
     (auto simp: run_recv_def pending_reset_def)

lemma responder_frame:
  assumes "f = reply_ping_step \<or> f = reply_ping_probe \<or> f = reply_worker_heartbeat_step
    \<or> f = reply_worker_heartbeat_probe \<or> f = reply_worker_heartbeat_timeout
    \<or> f = reply_client_heartbeat_step \<or> f = reply_client_heartbeat_probe
    \<or> f = reply_client_heartbeat_timeout"
  shows "job_ip (f s) = job_ip s
   \<and> self_job_address (f s) = self_job_address s
   \<and> self_ping_heartbeat_address (f s) = self_ping_heartbeat_address s
   \<and> binds (f s) = binds s
   \<and> filter is_reset (trace (f s)) = filter is_reset (trace s)
   \<and> pc (f s) = pc s"
  using assms by (auto simp: responder_defs emit_def)

lemma run_step_frame:
  "job_ip (run_step E s) = job_ip s
   \<and> self_job_address (run_step E s) = self_job_address s
   \<and> self_ping_heartbeat_address (run_step E s) = self_ping_heartbeat_address s"
  by (auto simp: run_step_def run_except_def emit_def Let_def split: option.splits)

lemma run_step_resets:
  "pc s = JoinClient \<and> client_thread s = Finished \<Longrightarrow>
     binds (run_step E s) = Suc (binds s)
     \<and> trace (run_step E s) =
         trace s @ [Send MasterSocket
                     (RESET_JOB_TAG,
                      [PickledJob
                         \<lparr>job_address = self_job_address s,
                          worker_heartbeat_address = None,
                          client_heartbeat_address = (job_ip s, bind_to_random_port E (binds s)),
                          ping_heartbeat_address = self_ping_heartbeat_address s,
                          worker_address = None,
                          pid = None\<rparr>])]
     \<and> pc (run_step E s) = MasterAckWait"
  by (simp add: run_step_def emit_def Let_def create_heartbeat_server_def reset_announcement_def)

lemma run_step_no_reset:
  "\<not> (pc s = JoinClient \<and> client_thread s = Finished) \<Longrightarrow>
     binds (run_step E s) = binds s
     \<and> filter is_reset (trace (run_step E s)) = filter is_reset (trace s)"
  by (auto simp: run_step_def run_except_def emit_def Let_def split: option.splits)

lemma step_resets:
  "resets (trace (step E ev s)) =
     resets (trace s)
     + (if ev = MainStep \<and> pc s = JoinClient \<and> client_thread s = Finished then 1 else 0)"
proof (cases "pc s = Exited \<or> pc s = Crashed")
  case True
  then show ?thesis by (auto simp: step_def)
next
  case False
  then show ?thesis
    using run_step_resets [of s E] run_step_no_reset [of s E] run_recv_frame [of E _ s]
      responder_frame [of _ s]
    by (cases ev) (auto simp: step_def resets_def)
qed

lemma addr_inv_step: "addr_inv E s \<Longrightarrow> addr_inv E (step E ev s)"
proof (cases "pc s = Exited \<or> pc s = Crashed")
  case True
  assume "addr_inv E s"
  with True show ?thesis by (auto simp: step_def)
next
  case False
  assume inv: "addr_inv E s"
  show ?thesis
  proof (cases "ev = MainStep \<and> pc s = JoinClient \<and> client_thread s = Finished")
    case True
    with inv False show ?thesis
      using run_step_resets [of s E] run_step_frame [of E s]
      by (simp add: step_def addr_inv_def resets_def nth_reset_def)
  next
    case no: False
    with inv False show ?thesis
      using run_step_no_reset [of s E] run_step_frame [of E s] run_recv_frame [of E _ s]
        responder_frame [of _ s]
      by (cases ev) (auto simp: step_def addr_inv_def resets_def)
  qed
qed

lemma addr_inv_exec: "addr_inv E s \<Longrightarrow> addr_inv E (exec E evs s)"
  by (induction evs arbitrary: s) (simp_all add: addr_inv_step)

lemma addr_inv_init: "addr_inv E (Job_init E worker master path0 fs0)"
  by (simp add: addr_inv_def Job_init_def Let_def resets_def create_heartbeat_server_def)

text \<open>
  Claim C6, as the code has it. The \<^verbatim>\<open>RESET_JOB\<close> messages of any run are, in order,
  the announcements of the resets: in each, \<^verbatim>\<open>worker_heartbeat_address\<close>,
  \<^verbatim>\<open>worker_address\<close> and \<^verbatim>\<open>pid\<close> are \<^verbatim>\<open>None\<close>; the request address and the ping
  address are those bound at startup (the first and second \<^verbatim>\<open>bind_to_random_port\<close> of
  the process, as announced to the worker), and the job never assigns them again; the
  client-heartbeat address is the address of the socket bound in that reset, the host
  with the port that this reset's own \<^verbatim>\<open>bind_to_random_port\<close> returned (reset \<open>i\<close>
  makes call \<open>4 + i\<close>). Nothing in the code compares that port with the one of the
  session before.
\<close>

theorem reset_announcements:
  "filter is_reset (trace (exec E evs (Job_init E worker master path0 fs0))) =
     map (\<lambda>i. Send MasterSocket
               (RESET_JOB_TAG,
                [PickledJob
                   \<lparr>job_address = (get_ip_address E, bind_to_random_port E 0),
                    worker_heartbeat_address = None,
                    client_heartbeat_address = (get_ip_address E, bind_to_random_port E (4 + i)),
                    ping_heartbeat_address = (get_ip_address E, bind_to_random_port E 1),
                    worker_address = None,
                    pid = None\<rparr>]))
       [0..<resets (trace (exec E evs (Job_init E worker master path0 fs0)))]
   \<and> self_job_address (exec E evs (Job_init E worker master path0 fs0)) =
       (get_ip_address E, bind_to_random_port E 0)
   \<and> self_ping_heartbeat_address (exec E evs (Job_init E worker master path0 fs0)) =
       (get_ip_address E, bind_to_random_port E 1)
   \<and> announcements (trace (Job_init E worker master path0 fs0)) =
       [\<lparr>job_address = (get_ip_address E, bind_to_random_port E 0),
         worker_heartbeat_address = Some (get_ip_address E, bind_to_random_port E 2),
         client_heartbeat_address = (get_ip_address E, bind_to_random_port E 3),
         ping_heartbeat_address = (get_ip_address E, bind_to_random_port E 1),
         worker_address = None,
         pid = Some (getpid E)\<rparr>]"
proof -
  have "addr_inv E (exec E evs (Job_init E worker master path0 fs0))"
    by (rule addr_inv_exec) (rule addr_inv_init)
  then show ?thesis
    by (simp add: addr_inv_def nth_reset_def [abs_def] announcements_def Job_init_def Let_def
        create_heartbeat_server_def)
qed

theorem reset_announcements_witness:
  "filter is_reset (trace (exec demo_env (startup @ attach @ kill_and_reset) demo_job)) =
     [Send MasterSocket
        (RESET_JOB_TAG,
         [PickledJob
            \<lparr>job_address = (''10.0.0.7'', 50000),
             worker_heartbeat_address = None,
             client_heartbeat_address = (''10.0.0.7'', 50004),
             ping_heartbeat_address = (''10.0.0.7'', 50001),
             worker_address = None,
             pid = None\<rparr>])]"
proof -
  have n: "resets (trace (exec demo_env (startup @ attach @ kill_and_reset) demo_job)) = 1"
    by (simp add: demo_defs model_defs resets_def)
  show ?thesis
    using reset_announcements [of demo_env "startup @ attach @ kill_and_reset"
        "''10.0.0.1:8010''" "''10.0.0.2:8000''" "[''/usr/lib/python3'']" demo_fs]
    unfolding demo_job_def [symmetric] n
    by (simp add: demo_env_def)
qed

text \<open>
  The claim as stated fails: when the reset binds its socket, the client responder of the
  session before has closed its own, whose port is free again. On a host that hands this
  port out again, the announcement of the reset carries the same client-heartbeat address
  as the announcement before it.
\<close>

theorem fresh_client_address_counterexample:
  "pc (exec reuse_env (startup @ attach @ take 5 kill_and_reset) reuse_job) = JoinClient
   \<and> client_thread (exec reuse_env (startup @ attach @ take 5 kill_and_reset) reuse_job) = Finished
   \<and> bound (exec reuse_env (startup @ attach @ take 5 kill_and_reset) reuse_job) =
       [50002, 50001, 50000]
   \<and> map client_heartbeat_address
        (announcements (trace (exec reuse_env (startup @ attach @ kill_and_reset) reuse_job))) =
       [(''10.0.0.7'', 50003), (''10.0.0.7'', 50003)]"
  by (simp add: demo_defs model_defs announcements_def)

section \<open>Worker loss and \<^verbatim>\<open>RESET_JOB\<close>\<close>

lemma run_step_pending:
  "\<not> job_is_alive s \<Longrightarrow>
     resets (trace (run_step E s)) + pending_reset (run_step E s)
       \<le> resets (trace s) + pending_reset s"
  by (auto simp: run_step_def run_except_def emit_def Let_def resets_def pending_reset_def
      split: option.splits)

lemma step_pending:
  assumes "\<not> job_is_alive s"
  shows "resets (trace (step E ev s)) + pending_reset (step E ev s)
       \<le> resets (trace s) + pending_reset s"
proof (cases "pc s = Exited \<or> pc s = Crashed")
  case True
  then show ?thesis by (auto simp: step_def)
next
  case False
  then show ?thesis
    using assms run_step_pending [of s E] run_recv_frame [of E _ s] responder_frame [of _ s]
    by (cases ev) (auto simp: step_def resets_def pending_reset_def)
qed

lemma exec_pending:
  "\<not> job_is_alive s \<Longrightarrow>
     resets (trace (exec E evs s)) + pending_reset (exec E evs s)
       \<le> resets (trace s) + pending_reset s"
proof (induction evs arbitrary: s)
  case Nil
  then show ?case by simp
next
  case (Cons ev evs)
  from Cons.prems have dead: "\<not> job_is_alive (step E ev s)"
    using step_alive by blast
  from Cons.IH [OF dead] step_pending [OF Cons.prems, of E ev]
  show ?case by simp
qed

lemma exec_resets_mono: "resets (trace s) \<le> resets (trace (exec E evs s))"
proof (induction evs arbitrary: s)
  case Nil
  then show ?case by simp
next
  case (Cons ev evs)
  have "resets (trace s) \<le> resets (trace (step E ev s))"
    by (simp add: step_resets)
  also have "\<dots> \<le> resets (trace (exec E evs (step E ev s)))"
    by (rule Cons.IH)
  finally show ?case by simp
qed

text \<open>
  \<^verbatim>\<open>RESET_JOB\<close> once the flag is false. The handler of the worker responder's timeout
  only sets \<^verbatim>\<open>worker_is_alive\<close> and \<^verbatim>\<open>job_is_alive\<close> to false; the main thread stays
  where it is. \<^verbatim>\<open>RESET_JOB\<close> is sent exactly once in every pass through the reset step
  of \<^verbatim>\<open>run\<close>, and nowhere else; once the flag is false at most one more is sent, and
  none once \<^verbatim>\<open>run\<close> is back at its loop test, where it returns.
\<close>

theorem reset_job_after_worker_loss:
  "(worker_thread s = InRecv \<and> pc s \<noteq> Exited \<and> pc s \<noteq> Crashed \<longrightarrow>
      \<not> job_is_alive (step E WorkerTimeout s)
      \<and> worker_is_alive (step E WorkerTimeout s) = Some False
      \<and> pc (step E WorkerTimeout s) = pc s)
   \<and> resets (trace (step E ev s)) =
       resets (trace s)
       + (if ev = MainStep \<and> pc s = JoinClient \<and> client_thread s = Finished then 1 else 0)
   \<and> (\<not> job_is_alive s \<longrightarrow> resets (trace (exec E evs s)) \<le> resets (trace s) + 1)
   \<and> (\<not> job_is_alive s \<and> pc s = RunTest \<longrightarrow>
        pc (step E MainStep s) = Exited
        \<and> resets (trace (exec E evs s)) = resets (trace s))"
proof -
  have a: "\<not> job_is_alive (step E WorkerTimeout s)
      \<and> worker_is_alive (step E WorkerTimeout s) = Some False
      \<and> pc (step E WorkerTimeout s) = pc s"
    if "worker_thread s = InRecv" "pc s \<noteq> Exited" "pc s \<noteq> Crashed"
    using that by (simp add: step_def reply_worker_heartbeat_timeout_def emit_def)
  have b: "resets (trace (exec E evs s)) \<le> resets (trace s) + 1" if "\<not> job_is_alive s"
    using exec_pending [OF that, of E evs] by (simp add: pending_reset_def split: if_splits)
  have c: "pc (step E MainStep s) = Exited \<and> resets (trace (exec E evs s)) = resets (trace s)"
    if "\<not> job_is_alive s" "pc s = RunTest"
    using exec_pending [OF that(1), of E evs] exec_resets_mono [of s E evs] that
    by (simp add: pending_reset_def step_def run_step_def)
  from a b c step_resets [of E ev s] show ?thesis by blast
qed

theorem reset_job_after_worker_loss_witness:
  "worker_thread (exec demo_env (startup @ attach) demo_job) = InRecv
   \<and> pc (exec demo_env (startup @ attach) demo_job) = ServeRecv
   \<and> \<not> job_is_alive (step demo_env WorkerTimeout (exec demo_env (startup @ attach) demo_job))
   \<and> resets (trace (exec demo_env after_worker_lost
        (step demo_env WorkerTimeout (exec demo_env (startup @ attach) demo_job))))
       \<le> resets (trace (step demo_env WorkerTimeout (exec demo_env (startup @ attach) demo_job))) + 1"
proof -
  have a: "worker_thread (exec demo_env (startup @ attach) demo_job) = InRecv"
    and b: "pc (exec demo_env (startup @ attach) demo_job) = ServeRecv"
    by (simp_all add: demo_defs model_defs)
  have c: "\<not> job_is_alive (step demo_env WorkerTimeout (exec demo_env (startup @ attach) demo_job))"
    using a b reset_job_after_worker_loss [of "exec demo_env (startup @ attach) demo_job" demo_env]
    by simp
  show ?thesis
    using a b c
      reset_job_after_worker_loss
        [of "step demo_env WorkerTimeout (exec demo_env (startup @ attach) demo_job)" demo_env
          MainStep after_worker_lost]
    by simp
qed

lemma step_blocked_in_wait_for_files:
  "pc s = WaitFiles \<Longrightarrow> \<not> is_request ev \<Longrightarrow> pc (step E ev s) = WaitFiles"
  using responder_frame [of _ s]
  by (cases ev) (auto simp: step_def run_step_def)

lemma exec_blocked_in_wait_for_files:
  "pc s = WaitFiles \<Longrightarrow> list_all (\<lambda>ev. \<not> is_request ev) evs \<Longrightarrow> pc (exec E evs s) = WaitFiles"
  by (induction evs arbitrary: s) (simp_all add: step_blocked_in_wait_for_files)

text \<open>
  Claim C1, evaluated at worker loss. The responder logs \<^verbatim>\<open>Job will quit\<close> and its
  docstring says that the job will exit automatically, but the timeout only clears the
  flags, and \<^verbatim>\<open>run\<close> reads \<^verbatim>\<open>job_is_alive\<close> nowhere but at the top of its loop.
  \<^item> A job that waits for its next client is blocked in the receive of
    \<^verbatim>\<open>wait_for_files\<close>, which has no deadline: whatever happens except a request, it
    stays there, and the process does not exit.
  \<^item> A job that serves a session leaves \<^verbatim>\<open>single_task\<close> for the reset, and the reset
    step sends \<^verbatim>\<open>RESET_JOB\<close> without testing the flag; only then \<^verbatim>\<open>run\<close> returns.
\<close>

theorem worker_loss_does_not_end_run:
  "(worker_thread s = InRecv \<and> pc s = WaitFiles \<and> list_all (\<lambda>ev. \<not> is_request ev) evs \<longrightarrow>
      \<not> job_is_alive (step E WorkerTimeout s)
      \<and> pc (exec E evs (step E WorkerTimeout s)) = WaitFiles)
   \<and> (\<not> job_is_alive s \<and> pc s = ServeTest \<longrightarrow> pc (step E MainStep s) = Reset)
   \<and> (\<not> job_is_alive s \<and> pc s = JoinClient \<and> client_thread s = Finished \<longrightarrow>
        resets (trace (step E MainStep s)) = resets (trace s) + 1
        \<and> pc (step E MainStep s) = MasterAckWait)"
proof -
  have a: "\<not> job_is_alive (step E WorkerTimeout s)
      \<and> pc (exec E evs (step E WorkerTimeout s)) = WaitFiles"
    if w: "worker_thread s = InRecv" and p: "pc s = WaitFiles"
      and e: "list_all (\<lambda>ev. \<not> is_request ev) evs"
  proof -
    have 1: "\<not> job_is_alive (step E WorkerTimeout s)"
      and 2: "pc (step E WorkerTimeout s) = WaitFiles"
      using w p by (simp_all add: step_def reply_worker_heartbeat_timeout_def emit_def)
    from exec_blocked_in_wait_for_files [OF 2 e] 1 show ?thesis by simp
  qed
  have b: "pc (step E MainStep s) = Reset" if "\<not> job_is_alive s" "pc s = ServeTest"
    using that by (simp add: step_def run_step_def)
  have c: "resets (trace (step E MainStep s)) = resets (trace s) + 1
        \<and> pc (step E MainStep s) = MasterAckWait"
    if "\<not> job_is_alive s" "pc s = JoinClient" "client_thread s = Finished"
    using that run_step_resets [of s E] by (simp add: step_def resets_def)
  from a b c show ?thesis by blast
qed

theorem worker_loss_does_not_end_run_witness:
  "worker_thread (exec demo_env startup demo_job) = InRecv
   \<and> pc (exec demo_env startup demo_job) = WaitFiles
   \<and> \<not> job_is_alive (step demo_env WorkerTimeout (exec demo_env startup demo_job))
   \<and> pc (exec demo_env [WorkerStep, PingStep, MainStep, MasterAck, PingProbe, MainStep]
        (step demo_env WorkerTimeout (exec demo_env startup demo_job))) = WaitFiles
   \<and> job_is_alive (exec demo_env (startup @ attach) demo_job)
   \<and> \<not> job_is_alive (exec demo_env (startup @ attach @ worker_lost) demo_job)
   \<and> resets (trace (exec demo_env (startup @ attach @ worker_lost) demo_job)) = 0
   \<and> resets (trace (exec demo_env (startup @ attach @ worker_lost @ after_worker_lost) demo_job)) = 1
   \<and> pc (exec demo_env (startup @ attach @ worker_lost @ after_worker_lost) demo_job) = Exited"
proof -
  have a: "worker_thread (exec demo_env startup demo_job) = InRecv"
    and b: "pc (exec demo_env startup demo_job) = WaitFiles"
    by (simp_all add: demo_defs model_defs)
  have c: "list_all (\<lambda>ev. \<not> is_request ev)
      [WorkerStep, PingStep, MainStep, MasterAck, PingProbe, MainStep]"
    by simp
  have d: "job_is_alive (exec demo_env (startup @ attach) demo_job)
   \<and> \<not> job_is_alive (exec demo_env (startup @ attach @ worker_lost) demo_job)
   \<and> resets (trace (exec demo_env (startup @ attach @ worker_lost) demo_job)) = 0
   \<and> resets (trace (exec demo_env (startup @ attach @ worker_lost @ after_worker_lost) demo_job)) = 1
   \<and> pc (exec demo_env (startup @ attach @ worker_lost @ after_worker_lost) demo_job) = Exited"
    by (simp add: demo_defs model_defs resets_def)
  show ?thesis
    using a b c d
      worker_loss_does_not_end_run [of "exec demo_env startup demo_job"
        "[WorkerStep, PingStep, MainStep, MasterAck, PingProbe, MainStep]" demo_env]
    by simp
qed

section \<open>The code bundle loader\<close>

lemma split_sep_flat: "CHR ''/'' \<notin> set xs \<Longrightarrow> split_sep acc xs = [acc @ xs]"
  by (induction xs arbitrary: acc) auto

lemma split_sep_sep:
  "CHR ''/'' \<notin> set xs \<Longrightarrow> split_sep acc (xs @ CHR ''/'' # ys) = (acc @ xs) # split_sep [] ys"
  by (induction xs arbitrary: acc) auto

lemma split_sep_nonempty: "split_sep acc xs \<noteq> []"
  by (induction xs arbitrary: acc) simp_all

lemma components_scratch:
  assumes "CHR ''/'' \<notin> set name"
  shows "components (''/tmp/'' @ name @ ''/'' @ k) = [[], ''tmp'', name] @ components k"
proof -
  have "split_sep [] (name @ CHR ''/'' # k) = name # split_sep [] k"
    using split_sep_sep [OF assms, of "[]" k] by simp
  then show ?thesis by (simp add: components_def)
qed

lemma path_join_scratch:
  assumes "flat_name name" and "k = [] \<or> hd k \<noteq> CHR ''/''"
  shows "path_join (''/tmp/'' @ name) k = ''/tmp/'' @ name @ ''/'' @ k"
proof -
  from assms(1) have "name \<noteq> []" and "CHR ''/'' \<notin> set name"
    by (auto simp: flat_name_def)
  then have "name \<noteq> []" and "last name \<noteq> CHR ''/''"
    by (metis last_in_set)+
  then show ?thesis using assms(2) by (auto simp: path_join_def)
qed

lemma resolve_scratch:
  assumes "[''tmp''] \<in> set (dirs fsys)" and "[''tmp'', name] \<in> set (dirs fsys)" and "flat_name name"
  shows "resolve fsys [] ([[], ''tmp'', name] @ cs) = resolve fsys [''tmp'', name] cs"
  using assms by (auto simp: flat_name_def)

lemma open_wb_write_dirs: "open_wb_write fsys file code = Inr fsys' \<Longrightarrow> dirs fsys' = dirs fsys"
  by (auto simp: open_wb_write_def Let_def split: sum.splits if_splits)

lemma write_files_dirs: "dirs (snd (write_files fsys edir pyfiles)) = dirs fsys"
proof (induction pyfiles arbitrary: fsys)
  case Nil
  then show ?case by simp
next
  case (Cons p pyfiles)
  obtain fname code where p: "p = (fname, code)" by (cases p)
  show ?case
  proof (cases "open_wb_write fsys (path_join edir fname) code")
    case (Inl e)
    then show ?thesis by (simp add: p)
  next
    case (Inr fsys')
    then show ?thesis using Cons.IH [of fsys'] open_wb_write_dirs [OF Inr] by (simp add: p)
  qed
qed

text \<open>Writing a plain file name into the scratch directory.\<close>

lemma open_wb_write_flat:
  assumes "[''tmp''] \<in> set (dirs fsys)" and "[''tmp'', name] \<in> set (dirs fsys)"
    and "[''tmp'', name, k] \<notin> set (dirs fsys)" and "flat_name name" and "flat_name k"
  shows "open_wb_write fsys (path_join (''/tmp/'' @ name) k) code =
     Inr (fsys\<lparr>files := ([''tmp'', name, k], code)
                 # filter (\<lambda>e. fst e \<noteq> [''tmp'', name, k]) (files fsys)\<rparr>)"
proof -
  from assms(5) have k: "CHR ''/'' \<notin> set k" "k \<noteq> []" "k \<noteq> ''.''" "k \<noteq> ''..''"
    by (auto simp: flat_name_def)
  then have hd: "k = [] \<or> hd k \<noteq> CHR ''/''" by (cases k) auto
  from assms(4) have n: "CHR ''/'' \<notin> set name" by (simp add: flat_name_def)
  have cs: "components (path_join (''/tmp/'' @ name) k) = [[], ''tmp'', name, k]"
    using path_join_scratch [OF assms(4) hd] components_scratch [OF n, of k]
      split_sep_flat [OF k(1), of "[]"]
    by (simp add: components_def)
  have r: "resolve fsys [] [[], ''tmp'', name] = Inr [''tmp'', name]"
    using resolve_scratch [OF assms(1,2,4), of "[]"] by simp
  show ?thesis
    unfolding open_wb_write_def cs Let_def using k assms(3) r by simp
qed

text \<open>Writing a key whose first part names a directory that is not there.\<close>

lemma resolve_missing:
  assumes "a \<noteq> []" and "a \<noteq> ''.''" and "a \<noteq> ''..''" and "cur @ [a] \<notin> set (dirs fsys)"
  shows "\<exists>e. resolve fsys cur (a # cs) = Inl e"
  using assms by simp

lemma open_wb_write_missing_dir:
  assumes "[''tmp''] \<in> set (dirs fsys)" and "[''tmp'', name] \<in> set (dirs fsys)"
    and "[''tmp'', name, a] \<notin> set (dirs fsys)" and "flat_name name" and "flat_name a"
  shows "\<exists>e. open_wb_write fsys (path_join (''/tmp/'' @ name) (a @ ''/'' @ b)) code = Inl e"
proof -
  from assms(5) have a: "CHR ''/'' \<notin> set a" "a \<noteq> []" "a \<noteq> ''.''" "a \<noteq> ''..''"
    by (auto simp: flat_name_def)
  then have hd: "a @ ''/'' @ b = [] \<or> hd (a @ ''/'' @ b) \<noteq> CHR ''/''" by (cases a) auto
  from assms(4) have n: "CHR ''/'' \<notin> set name" by (simp add: flat_name_def)
  have "components (a @ ''/'' @ b) = a # components b"
    using split_sep_sep [OF a(1), of "[]" b] by (simp add: components_def)
  then have cs: "components (path_join (''/tmp/'' @ name) (a @ ''/'' @ b)) =
      [[], ''tmp'', name] @ a # components b"
    using path_join_scratch [OF assms(4) hd] components_scratch [OF n, of "a @ ''/'' @ b"]
    by simp
  have ne: "components b \<noteq> []" by (simp add: components_def split_sep_nonempty)
  then have bl: "butlast ([[], ''tmp'', name] @ a # components b) =
      [[], ''tmp'', name] @ a # butlast (components b)"
    by simp
  obtain e where "resolve fsys [''tmp'', name] (a # butlast (components b)) = Inl e"
    using resolve_missing [OF a(2,3,4), of "[''tmp'', name]" fsys "butlast (components b)"] assms(3)
    by auto
  then have "resolve fsys [] (butlast (components (path_join (''/tmp/'' @ name) (a @ ''/'' @ b)))) = Inl e"
    unfolding cs bl using resolve_scratch [OF assms(1,2,4)] by simp
  then show ?thesis unfolding open_wb_write_def Let_def by simp
qed


lemma open_wb_write_flat_dir:
  assumes "dir = ''/tmp/'' @ name"
    and "[''tmp''] \<in> set (dirs fsys)" and "[''tmp'', name] \<in> set (dirs fsys)"
    and "[''tmp'', name, k] \<notin> set (dirs fsys)" and "flat_name name" and "flat_name k"
  shows "open_wb_write fsys (path_join dir k) code =
     Inr (fsys\<lparr>files := ([''tmp'', name, k], code)
                 # filter (\<lambda>e. fst e \<noteq> [''tmp'', name, k]) (files fsys)\<rparr>)"
  unfolding assms(1) by (rule open_wb_write_flat [OF assms(2-6)])

lemma open_wb_write_missing_dir_dir:
  assumes "dir = ''/tmp/'' @ name"
    and "[''tmp''] \<in> set (dirs fsys)" and "[''tmp'', name] \<in> set (dirs fsys)"
    and "[''tmp'', name, a] \<notin> set (dirs fsys)" and "flat_name name" and "flat_name a"
  shows "\<exists>e. open_wb_write fsys (path_join dir (a @ ''/'' @ b)) code = Inl e"
  unfolding assms(1) by (rule open_wb_write_missing_dir [OF assms(2-6)])

lemma map_of_filter_other:
  "q \<noteq> p \<Longrightarrow> map_of (filter (\<lambda>e. fst e \<noteq> p) xs) q = map_of xs q"
  by (induction xs) auto

lemma dirs_closed_child:
  assumes "dirs_closed fsys" and "p \<notin> set (dirs fsys)"
  shows "p @ [k] \<notin> set (dirs fsys)"
proof
  assume "p @ [k] \<in> set (dirs fsys)"
  with assms(1) have "butlast (p @ [k]) \<in> set (dirs fsys)"
    by (auto simp: dirs_closed_def list_all_iff)
  with assms(2) show False by simp
qed

text \<open>A bundle of plain file names, written into a scratch directory with no directory in it.\<close>

lemma write_files_flat:
  assumes "dir = ''/tmp/'' @ name"
    and "[''tmp''] \<in> set (dirs fsys)" and "[''tmp'', name] \<in> set (dirs fsys)"
    and "\<And>k. [''tmp'', name, k] \<notin> set (dirs fsys)" and "flat_name name"
    and "list_all flat_name (map fst pyfiles)"
  shows "fst (write_files fsys dir pyfiles) = None
    \<and> map_of (files (snd (write_files fsys dir pyfiles))) [''tmp'', name, k] =
        (case map_of (rev pyfiles) k of
           Some code \<Rightarrow> Some code
         | None \<Rightarrow> map_of (files fsys) [''tmp'', name, k])"
  using assms(2-6)
proof (induction pyfiles arbitrary: fsys)
  case Nil
  then show ?case by simp
next
  case (Cons p pyfiles)
  obtain fname code where p: "p = (fname, code)" by (cases p)
  let ?fsys' = "fsys\<lparr>files := ([''tmp'', name, fname], code)
                 # filter (\<lambda>e. fst e \<noteq> [''tmp'', name, fname]) (files fsys)\<rparr>"
  from Cons.prems(5) have flat: "flat_name fname" and rest: "list_all flat_name (map fst pyfiles)"
    by (simp_all add: p)
  have w: "open_wb_write fsys (path_join dir fname) code = Inr ?fsys'"
    by (rule open_wb_write_flat_dir [OF assms(1) Cons.prems(1,2) Cons.prems(3) Cons.prems(4) flat])
  have ih: "fst (write_files ?fsys' dir pyfiles) = None
    \<and> map_of (files (snd (write_files ?fsys' dir pyfiles))) [''tmp'', name, k] =
        (case map_of (rev pyfiles) k of
           Some code \<Rightarrow> Some code
         | None \<Rightarrow> map_of (files ?fsys') [''tmp'', name, k])"
    using Cons.prems(1,2,3) by (intro Cons.IH) (simp_all add: Cons.prems(4) rest)
  have m: "map_of (files ?fsys') [''tmp'', name, k] =
      (if k = fname then Some code else map_of (files fsys) [''tmp'', name, k])"
    by (simp add: map_of_filter_other)
  have r: "map_of (rev (p # pyfiles)) k =
      (case map_of (rev pyfiles) k of
         Some c \<Rightarrow> Some c
       | None \<Rightarrow> if k = fname then Some code else None)"
    by (simp add: p map_add_def split: option.splits)
  have "write_files fsys dir (p # pyfiles) = write_files ?fsys' dir pyfiles"
    by (simp add: p w)
  then show ?case
    unfolding r using ih m by (simp add: map_of_filter_other split: option.splits)
qed

text \<open>A bundle with a key below a directory that is not in the scratch directory.\<close>

lemma write_files_missing_dir:
  assumes "dir = ''/tmp/'' @ name"
    and "[''tmp''] \<in> set (dirs fsys)" and "[''tmp'', name] \<in> set (dirs fsys)"
    and "[''tmp'', name, a] \<notin> set (dirs fsys)" and "flat_name name" and "flat_name a"
    and "(a @ ''/'' @ b, code) \<in> set pyfiles"
  shows "fst (write_files fsys dir pyfiles) \<noteq> None"
  using assms(2-7)
proof (induction pyfiles arbitrary: fsys)
  case Nil
  then show ?case by simp
next
  case (Cons p pyfiles)
  obtain fname c where p: "p = (fname, c)" by (cases p)
  show ?case
  proof (cases "open_wb_write fsys (path_join dir fname) c")
    case (Inl e)
    then show ?thesis by (simp add: p)
  next
    case (Inr fsys')
    have d: "dirs fsys' = dirs fsys" by (rule open_wb_write_dirs [OF Inr])
    have "p \<noteq> (a @ ''/'' @ b, code)"
      using open_wb_write_missing_dir_dir [OF assms(1) Cons.prems(1,2,3,4,5), of b c] Inr p
      by auto
    with Cons.prems(6) have "(a @ ''/'' @ b, code) \<in> set pyfiles" by simp
    then have "fst (write_files fsys' dir pyfiles) \<noteq> None"
      using Cons.prems(1,2,3,4,5) by (intro Cons.IH) (simp_all add: d)
    moreover have "write_files fsys dir (p # pyfiles) = write_files fsys' dir pyfiles"
      by (simp add: p Inr)
    ultimately show ?thesis by simp
  qed
qed

text \<open>
  Claim C8, as the code has it. The loader makes the scratch directory and nothing else:
  the loop over the bundle opens \<^verbatim>\<open>os.path.join(envdir, file)\<close> for writing and
  creates no directory. In a fresh scratch directory, a bundle whose keys are plain file
  names is materialized there (the last write of a name wins); a bundle with a key
  \<^verbatim>\<open>a/b\<close>, \<open>a\<close> a plain name, is not: the directory \<open>a\<close> does not exist, the
  \<^verbatim>\<open>open\<close> fails and \<^verbatim>\<open>wait_for_files\<close> raises.
\<close>

theorem loader_creates_no_directory:
  assumes "mkdtemp name fs0 = Inr (dir, fs1)" and "dirs_closed fs0" and "flat_name name"
  shows "dirs fs1 = dirs fs0 @ [[''tmp'', name]]
    \<and> dirs (snd (write_files fs1 dir pyfiles)) = dirs fs1
    \<and> (list_all flat_name (map fst pyfiles) \<longrightarrow>
         fst (write_files fs1 dir pyfiles) = None
         \<and> map_of (files (snd (write_files fs1 dir pyfiles))) [''tmp'', name, k] =
             (case map_of (rev pyfiles) k of
                Some code \<Rightarrow> Some code
              | None \<Rightarrow> map_of (files fs0) [''tmp'', name, k]))
    \<and> (flat_name a \<and> (a @ ''/'' @ b, code) \<in> set pyfiles \<longrightarrow>
         fst (write_files fs1 dir pyfiles) \<noteq> None)"
proof -
  from assms(1) have tmp: "[''tmp''] \<in> set (dirs fs0)"
    and fresh: "[''tmp'', name] \<notin> set (dirs fs0)"
    and dir: "dir = ''/tmp/'' @ name"
    and fs1: "fs1 = fs0\<lparr>dirs := dirs fs0 @ [[''tmp'', name]]\<rparr>"
    by (auto simp: mkdtemp_def split: if_splits)
  have below: "[''tmp'', name, x] \<notin> set (dirs fs1)" for x
    using dirs_closed_child [OF assms(2) fresh, of x] by (simp add: fs1)
  have 1: "[''tmp''] \<in> set (dirs fs1)" and 2: "[''tmp'', name] \<in> set (dirs fs1)"
    using tmp by (simp_all add: fs1)
  have f: "files fs1 = files fs0" and d: "dirs fs1 = dirs fs0 @ [[''tmp'', name]]"
    by (simp_all add: fs1)
  show ?thesis
    using write_files_dirs [of fs1 dir pyfiles]
      write_files_flat [OF dir 1 2 below assms(3), of pyfiles k]
      write_files_missing_dir [OF dir 1 2 below assms(3), of a b code pyfiles]
    unfolding f by (auto simp: d)
qed

theorem loader_creates_no_directory_witness:
  "mkdtemp ''tmpx'' demo_fs = Inr (''/tmp/tmpx'', demo_fs\<lparr>dirs := dirs demo_fs @ [[''tmp'', ''tmpx'']]\<rparr>)
   \<and> dirs_closed demo_fs
   \<and> flat_name ''tmpx''
   \<and> list_all flat_name (map fst [(''u.py'', ''class C: pass'')])
   \<and> fst (write_files (demo_fs\<lparr>dirs := dirs demo_fs @ [[''tmp'', ''tmpx'']]\<rparr>) ''/tmp/tmpx''
          [(''u.py'', ''class C: pass'')]) = None
   \<and> map_of (files (snd (write_files (demo_fs\<lparr>dirs := dirs demo_fs @ [[''tmp'', ''tmpx'']]\<rparr>)
          ''/tmp/tmpx'' [(''u.py'', ''class C: pass'')]))) [''tmp'', ''tmpx'', ''u.py''] =
       Some ''class C: pass''
   \<and> flat_name ''pkg''
   \<and> fst (write_files (demo_fs\<lparr>dirs := dirs demo_fs @ [[''tmp'', ''tmpx'']]\<rparr>) ''/tmp/tmpx''
          [(''pkg/u.py'', ''class C: pass'')]) \<noteq> None"
proof -
  have a: "mkdtemp ''tmpx'' demo_fs =
      Inr (''/tmp/tmpx'', demo_fs\<lparr>dirs := dirs demo_fs @ [[''tmp'', ''tmpx'']]\<rparr>)"
    by (simp add: mkdtemp_def demo_fs_def)
  have b: "dirs_closed demo_fs" by (simp add: dirs_closed_def demo_fs_def)
  have c: "flat_name ''tmpx''" and d: "flat_name ''pkg''" by (simp_all add: flat_name_def)
  have e: "list_all flat_name (map fst [(''u.py'', ''class C: pass'')])"
    by (simp add: flat_name_def)
  have f: "(''pkg'' @ ''/'' @ ''u.py'', ''class C: pass'') \<in> set [(''pkg/u.py'', ''class C: pass'')]"
    by simp
  show ?thesis
    using a b c d e f
      loader_creates_no_directory [OF a b c, of "[(''u.py'', ''class C: pass'')]" "''u.py''"]
      loader_creates_no_directory [OF a b c, of "[(''pkg/u.py'', ''class C: pass'')]" _
        "''pkg''" "''u.py''" "''class C: pass''"]
    by simp
qed

text \<open>
  The claim as stated fails: the bundle has the one key \<^verbatim>\<open>pkg/u.py\<close>. No directory
  \<^verbatim>\<open>pkg\<close> is created, the \<^verbatim>\<open>open\<close> raises \<^verbatim>\<open>FileNotFoundError\<close>, which leaves
  \<^verbatim>\<open>run\<close>; \<^verbatim>\<open>NORMAL\<close> is not sent and no file is written.
\<close>

theorem bundle_with_separator_counterexample:
  "pc (exec demo_env startup demo_job) = WaitFiles
   \<and> pc (exec demo_env (startup @ [Request send_package]) demo_job) = Crashed
   \<and> uncaught (exec demo_env (startup @ [Request send_package]) demo_job) =
       Some (Exn FileNotFoundError ''pkg'')
   \<and> request_io (trace (exec demo_env (startup @ [Request send_package]) demo_job)) =
       [Recv (SEND_FILE_TAG, [PickledFiles [(''pkg/u.py'', ''class C: pass'')]])]
   \<and> dirs (fs (exec demo_env (startup @ [Request send_package]) demo_job)) =
       [[], [''tmp''], [''tmp'', ''tmpx'']]
   \<and> files (fs (exec demo_env (startup @ [Request send_package]) demo_job)) = []"
  by (simp add: demo_defs model_defs request_io_def)

end
